theory Spec2Isabelle
  imports Main "HOL-Library.Sublist"
begin

section \<open>Values, calls and the world of the notebook\<close>

text \<open>
  The program is the Jupyter notebook \<^verbatim>\<open>hybrid-agent-tutorial.ipynb\<close>: a sequence of
  code cells, run top to bottom. Every capability is delegated to imported libraries
  and hosted services, so the model keeps the libraries abstract: a library is any
  function from a call and the world to an outcome (an exception or a value) and a new
  world. What the notebook itself does (which calls it makes, in which order, with which
  arguments, and the few conditions it evaluates) is translated cell by cell. Import
  statements only bind names and the display of a cell's last value is the front end's
  work; neither is an event of the model.

  Python is dynamically typed; a value is one of the shapes the notebook handles.
  An exception is its class name. \<open>VGen xs e\<close> is a generator that yields the values
  \<open>xs\<close> and then stops, normally (\<open>e = None\<close>) or by raising (\<open>e = Some err\<close>).
\<close>

datatype error = Exc string

datatype pyval =
    VNone
  | VInt int
  | VStr string
  | VList "pyval list"
  | VTuple "pyval list"
  | VDict "(string \<times> pyval) list"
  | VObj string "(string \<times> pyval) list"
  | VGen "pyval list" "error option"

text \<open>A call of a library function or method: its name, positional and keyword arguments.
  For a method call the receiver is the first positional argument.\<close>

datatype call = Call string "pyval list" "(string \<times> pyval) list"

type_synonym outcome = "error + pyval"

record datetime =
  year :: nat
  month :: nat
  day :: nat
  hour :: nat
  minute :: nat
  second :: nat
  microsecond :: nat

text \<open>What a run does that can be observed from outside, in order: library calls with
  their outcomes, reads and writes of \<^verbatim>\<open>os.environ\<close>, and readings of the clock.\<close>

datatype event =
    ECall call outcome
  | EnvGet string "string option"
  | EnvSet string string
  | ClockRead datetime

text \<open>The vector store on disk: the documents of each collection of each persist directory.\<close>

type_synonym vstore = "(string \<times> string) \<rightharpoonup> string list"

text \<open>The world outside the notebook's own variables: the process environment, the clock,
  the vector store, and everything else (terminal, network, files).\<close>

record 'x world =
  env :: "string \<rightharpoonup> string"
  clock :: datetime
  store :: vstore
  rest :: 'x

type_synonym 'x library = "call \<Rightarrow> 'x world \<Rightarrow> outcome \<times> 'x world"

text \<open>A run of a piece of the notebook from a world: the value or the uncaught exception,
  the world it leaves, and the events in order.\<close>

record ('x, 'a) run =
  result :: "error + 'a"
  final :: "'x world"
  events :: "event list"

type_synonym ('x, 'a) nb = "'x world \<Rightarrow> ('x, 'a) run"

subsection \<open>Sequencing: an exception ends the run\<close>

definition return :: "'a \<Rightarrow> ('x, 'a) nb" where
  "return v w = \<lparr>result = Inr v, final = w, events = []\<rparr>"

definition raise :: "error \<Rightarrow> ('x, 'a) nb" where
  "raise e w = \<lparr>result = Inl e, final = w, events = []\<rparr>"

definition bind :: "('x, 'a) nb \<Rightarrow> ('a \<Rightarrow> ('x, 'b) nb) \<Rightarrow> ('x, 'b) nb" where
  "bind m f w =
     (let a = m w in
      case result a of
        Inl e \<Rightarrow> \<lparr>result = Inl e, final = final a, events = events a\<rparr>
      | Inr v \<Rightarrow>
          (let b = f v (final a) in
           \<lparr>result = result b, final = final b, events = events a @ events b\<rparr>))"

definition call :: "'x library \<Rightarrow> call \<Rightarrow> ('x, pyval) nb" where
  "call lib c w = \<lparr>result = fst (lib c w), final = snd (lib c w), events = [ECall c (fst (lib c w))]\<rparr>"

subsection \<open>The Python operations the notebook applies itself\<close>

text \<open>\<^verbatim>\<open>os.environ.get(k)\<close> and \<^verbatim>\<open>os.getenv(k)\<close>: the value, or \<^verbatim>\<open>None\<close>.\<close>

definition environ_get :: "string \<Rightarrow> ('x, pyval) nb" where
  "environ_get k w =
     \<lparr>result = Inr (case env w k of None \<Rightarrow> VNone | Some v \<Rightarrow> VStr v), final = w,
      events = [EnvGet k (env w k)]\<rparr>"

text \<open>\<^verbatim>\<open>os.environ[k] = v\<close>: only a \<^verbatim>\<open>str\<close> can be stored.\<close>

definition environ_setitem :: "string \<Rightarrow> pyval \<Rightarrow> ('x, unit) nb" where
  "environ_setitem k v w =
     (case v of
        VStr x \<Rightarrow> \<lparr>result = Inr (), final = w\<lparr>env := (env w)(k \<mapsto> x)\<rparr>, events = [EnvSet k x]\<rparr>
      | _ \<Rightarrow> \<lparr>result = Inl (Exc ''TypeError''), final = w, events = []\<rparr>)"

text \<open>Truth value of an object, as \<^verbatim>\<open>not x\<close> and \<^verbatim>\<open>if x\<close> test it.\<close>

fun truthy :: "pyval \<Rightarrow> bool" where
  "truthy VNone = False"
| "truthy (VInt i) = (i \<noteq> 0)"
| "truthy (VStr x) = (x \<noteq> [])"
| "truthy (VList xs) = (xs \<noteq> [])"
| "truthy (VTuple xs) = (xs \<noteq> [])"
| "truthy (VDict kvs) = (kvs \<noteq> [])"
| "truthy (VObj c kvs) = True"
| "truthy (VGen xs e) = True"

text \<open>\<^verbatim>\<open>getpass.getpass(prompt)\<close>: the interactive prompt.\<close>

definition getpass :: "'x library \<Rightarrow> string \<Rightarrow> ('x, pyval) nb" where
  "getpass lib prompt = call lib (Call ''getpass.getpass'' [VStr prompt] [])"

section \<open>The cells\<close>

subsection \<open>Credentials and the Tavily client\<close>

text \<open>
  \<^verbatim>\<open>
  if not os.environ.get(K):
      os.environ[K] = getpass.getpass(PROMPT)
  \<close>
  The statement occurs twice in the setup cell, for the two credentials.
\<close>

definition prompt_if_unset :: "'x library \<Rightarrow> string \<Rightarrow> string \<Rightarrow> ('x, unit) nb" where
  "prompt_if_unset lib k prompt =
     bind (environ_get k) (\<lambda>v.
       if \<not> truthy v
       then bind (getpass lib prompt) (\<lambda>typed. environ_setitem k typed)
       else return ())"

definition TAVILY_API_KEY :: string where
  "TAVILY_API_KEY = ''TAVILY_API_KEY''"

definition OPENAI_API_KEY :: string where
  "OPENAI_API_KEY = ''OPENAI_API_KEY''"

definition tavily_prompt :: string where
  "tavily_prompt = ''TAVILY_API_KEY:\<newline>''"

definition openai_prompt :: string where
  "openai_prompt = ''Enter API key for OpenAI: ''"

text \<open>
  \<^verbatim>\<open>
  load_dotenv()
  if not os.environ.get("TAVILY_API_KEY"):
      os.environ["TAVILY_API_KEY"] = getpass.getpass("TAVILY_API_KEY:\n")
  if not os.environ.get("OPENAI_API_KEY"):
      os.environ["OPENAI_API_KEY"] = getpass.getpass("Enter API key for OpenAI: ")
  tavily_client = TavilyClient(api_key=os.getenv("TAVILY_API_KEY"))
  \<close>
\<close>

definition cell_setup :: "'x library \<Rightarrow> ('x, pyval) nb" where
  "cell_setup lib =
     bind (call lib (Call ''load_dotenv'' [] [])) (\<lambda>_.
     bind (prompt_if_unset lib TAVILY_API_KEY tavily_prompt) (\<lambda>_.
     bind (prompt_if_unset lib OPENAI_API_KEY openai_prompt) (\<lambda>_.
     bind (environ_get TAVILY_API_KEY) (\<lambda>api_key.
     call lib (Call ''TavilyClient'' [] [(''api_key'', api_key)])))))"

subsection \<open>Shell and install cells\<close>

text \<open>
  \<^verbatim>\<open>
  !echo "TAVILY_API_KEY=<your-tavily-api-key>" >> .env
  !echo "OPENAI_API_KEY=<your-openai-api-key>" >> .env
  \<close>
\<close>

definition cell_env_file :: "'x library \<Rightarrow> ('x, pyval) nb" where
  \<open>cell_env_file lib =
     bind (call lib (Call ''!'' [VStr ''echo "TAVILY_API_KEY=<your-tavily-api-key>" >> .env''] [])) (\<lambda>_.
     call lib (Call ''!'' [VStr ''echo "OPENAI_API_KEY=<your-openai-api-key>" >> .env''] []))\<close>

text \<open>\<^verbatim>\<open>%pip install -U tavily-python langchain-chroma langchain-openai langgraph langchain-tavily --quiet\<close>\<close>

definition cell_install :: "'x library \<Rightarrow> ('x, pyval) nb" where
  "cell_install lib =
     call lib (Call ''%pip''
       [VStr ''install -U tavily-python langchain-chroma langchain-openai langgraph langchain-tavily --quiet''] [])"

subsection \<open>The vector store and the retriever\<close>

text \<open>
  \<^verbatim>\<open>
  embeddings = OpenAIEmbeddings()
  vector_store = Chroma(collection_name="crm", embedding_function=embeddings,
                        persist_directory="supplemental/db")
  \<close>
\<close>

definition cell_vector_store :: "'x library \<Rightarrow> ('x, pyval \<times> pyval) nb" where
  "cell_vector_store lib =
     bind (call lib (Call ''OpenAIEmbeddings'' [] [])) (\<lambda>embeddings.
     bind (call lib (Call ''Chroma'' []
             [(''collection_name'', VStr ''crm''),
              (''embedding_function'', embeddings),
              (''persist_directory'', VStr ''supplemental/db'')])) (\<lambda>vector_store.
     return (embeddings, vector_store)))"

text \<open>
  \<^verbatim>\<open>
  retriever = vector_store.as_retriever()
  search_results = retriever.invoke("robotics use case")
  \<close>
\<close>

definition cell_retriever :: "'x library \<Rightarrow> pyval \<Rightarrow> ('x, pyval \<times> pyval) nb" where
  "cell_retriever lib vector_store =
     bind (call lib (Call ''as_retriever'' [vector_store] [])) (\<lambda>retriever.
     bind (call lib (Call ''invoke'' [retriever, VStr ''robotics use case''] [])) (\<lambda>search_results.
     return (retriever, search_results)))"

subsection \<open>Iteration, attributes and subscripts\<close>

definition lift :: "error + 'a \<Rightarrow> ('x, 'a) nb" where
  "lift r w = \<lparr>result = r, final = w, events = []\<rparr>"

text \<open>What a \<^verbatim>\<open>for\<close> loop gets from a value: its items, and the exception that ends the
  iteration if there is one. A value that is not iterable raises \<^verbatim>\<open>TypeError\<close>.\<close>

fun py_iter :: "pyval \<Rightarrow> error + (pyval list \<times> error option)" where
  "py_iter (VList xs) = Inr (xs, None)"
| "py_iter (VTuple xs) = Inr (xs, None)"
| "py_iter (VGen xs e) = Inr (xs, e)"
| "py_iter (VStr x) = Inr (map (\<lambda>c. VStr [c]) x, None)"
| "py_iter (VDict kvs) = Inr (map (\<lambda>kv. VStr (fst kv)) kvs, None)"
| "py_iter VNone = Inl (Exc ''TypeError'')"
| "py_iter (VInt i) = Inl (Exc ''TypeError'')"
| "py_iter (VObj c kvs) = Inl (Exc ''TypeError'')"

text \<open>\<^verbatim>\<open>obj.name\<close>\<close>

fun getattr :: "pyval \<Rightarrow> string \<Rightarrow> error + pyval" where
  "getattr (VObj c kvs) a = (case map_of kvs a of None \<Rightarrow> Inl (Exc ''AttributeError'') | Some v \<Rightarrow> Inr v)"
| "getattr v a = Inl (Exc ''AttributeError'')"

text \<open>\<^verbatim>\<open>d[key]\<close> with a string key\<close>

fun getitem :: "pyval \<Rightarrow> string \<Rightarrow> error + pyval" where
  "getitem (VDict kvs) k = (case map_of kvs k of None \<Rightarrow> Inl (Exc ''KeyError'') | Some v \<Rightarrow> Inr v)"
| "getitem v k = Inl (Exc ''TypeError'')"

text \<open>\<^verbatim>\<open>xs[-1]\<close>\<close>

fun getitem_last :: "pyval \<Rightarrow> error + pyval" where
  "getitem_last (VList xs) = (if xs = [] then Inl (Exc ''IndexError'') else Inr (last xs))"
| "getitem_last (VTuple xs) = (if xs = [] then Inl (Exc ''IndexError'') else Inr (last xs))"
| "getitem_last (VStr x) = (if x = [] then Inl (Exc ''IndexError'') else Inr (VStr [last x]))"
| "getitem_last (VDict kvs) = Inl (Exc ''KeyError'')"
| "getitem_last v = Inl (Exc ''TypeError'')"

text \<open>\<^verbatim>\<open>isinstance(v, tuple)\<close>\<close>

fun isinstance_tuple :: "pyval \<Rightarrow> bool" where
  "isinstance_tuple (VTuple xs) = True"
| "isinstance_tuple v = False"

fun for_each :: "(pyval \<Rightarrow> ('x, unit) nb) \<Rightarrow> pyval list \<Rightarrow> ('x, unit) nb" where
  "for_each body [] = return ()"
| "for_each body (x # xs) = bind (body x) (\<lambda>_. for_each body xs)"

definition finish :: "error option \<Rightarrow> 'a \<Rightarrow> ('x, 'a) nb" where
  "finish fin v = (case fin of None \<Rightarrow> return v | Some e \<Rightarrow> raise e)"

text \<open>
  \<^verbatim>\<open>
  for result in search_results:
      print(result.page_content)
      print("\n")
  \<close>
\<close>

definition cell_print_results :: "'x library \<Rightarrow> pyval \<Rightarrow> ('x, unit) nb" where
  "cell_print_results lib search_results =
     bind (lift (py_iter search_results)) (\<lambda>(results, fin).
     bind (for_each (\<lambda>result.
             bind (lift (getattr result ''page_content'')) (\<lambda>page_content.
             bind (call lib (Call ''print'' [page_content] [])) (\<lambda>_.
             bind (call lib (Call ''print'' [VStr ''\<newline>''] [])) (\<lambda>_.
             return ())))) results) (\<lambda>_.
     finish fin ()))"

subsection \<open>The tools\<close>

text \<open>
  \<^verbatim>\<open>
  vector_search_tool = retriever.as_tool(name="vector_search", description="""
      Perform a vector search on our company's CRM data.
      """)
  search = TavilySearch(max_results=10, topic="general")
  extract = TavilyExtract(extract_depth="advanced")
  crawl = TavilyCrawl()
  \<close>
\<close>

definition cell_tools :: "'x library \<Rightarrow> pyval \<Rightarrow> ('x, pyval \<times> pyval \<times> pyval \<times> pyval) nb" where
  "cell_tools lib retriever =
     bind (call lib (Call ''as_tool'' [retriever]
             [(''name'', VStr ''vector_search''),
              (''description'',
               VStr (''\<newline>'' @ ''    Perform a vector search on our company's CRM data.\<newline>'' @ ''    ''))]))
       (\<lambda>vector_search_tool.
     bind (call lib (Call ''TavilySearch'' [] [(''max_results'', VInt 10), (''topic'', VStr ''general'')]))
       (\<lambda>search.
     bind (call lib (Call ''TavilyExtract'' [] [(''extract_depth'', VStr ''advanced'')])) (\<lambda>extract.
     bind (call lib (Call ''TavilyCrawl'' [] [])) (\<lambda>crawl.
     return (vector_search_tool, search, extract, crawl)))))"

subsection \<open>The models\<close>

text \<open>
  \<^verbatim>\<open>
  o3_mini = ChatOpenAI(model="o3-mini-2025-01-31", api_key=os.getenv("OPENAI_API_KEY"))
  gpt_4_1 = ChatOpenAI(model="gpt-4.1", api_key=os.getenv("OPENAI_API_KEY"))
  \<close>
\<close>

definition cell_models :: "'x library \<Rightarrow> ('x, pyval \<times> pyval) nb" where
  "cell_models lib =
     bind (environ_get OPENAI_API_KEY) (\<lambda>api_key.
     bind (call lib (Call ''ChatOpenAI'' [] [(''model'', VStr ''o3-mini-2025-01-31''), (''api_key'', api_key)]))
       (\<lambda>o3_mini.
     bind (environ_get OPENAI_API_KEY) (\<lambda>api_key.
     bind (call lib (Call ''ChatOpenAI'' [] [(''model'', VStr ''gpt-4.1''), (''api_key'', api_key)]))
       (\<lambda>gpt_4_1.
     return (o3_mini, gpt_4_1)))))"

subsection \<open>The date in the prompt\<close>

text \<open>
  \<^verbatim>\<open>today = datetime.datetime.today().strftime("%A, %B %d, %Y")\<close>

  \<^verbatim>\<open>%A\<close> is the full weekday name, \<^verbatim>\<open>%B\<close> the full month name, \<^verbatim>\<open>%d\<close> the day of
  the month as two digits and \<^verbatim>\<open>%Y\<close> the year with century, four digits for the years
  1000 to 9999. The weekday is computed as the standard library does, from the
  proleptic Gregorian ordinal of the date.
\<close>

definition is_leap :: "nat \<Rightarrow> bool" where
  "is_leap y = (y mod 4 = 0 \<and> (y mod 100 \<noteq> 0 \<or> y mod 400 = 0))"

definition days_before_year :: "nat \<Rightarrow> nat" where
  "days_before_year y = (let p = y - 1 in (p * 365 + p div 4 + p div 400) - p div 100)"

definition days_before_month :: "nat \<Rightarrow> nat \<Rightarrow> nat" where
  "days_before_month y m =
     ([0, 0, 31, 59, 90, 120, 151, 181, 212, 243, 273, 304, 334] ! (min m 12))
     + (if 2 < m \<and> is_leap y then 1 else 0)"

definition toordinal :: "datetime \<Rightarrow> nat" where
  "toordinal d = days_before_year (year d) + days_before_month (year d) (month d) + day d"

definition weekday :: "datetime \<Rightarrow> nat" where
  "weekday d = (toordinal d + 6) mod 7"

definition weekday_names :: "string list" where
  "weekday_names = [''Monday'', ''Tuesday'', ''Wednesday'', ''Thursday'', ''Friday'', ''Saturday'', ''Sunday'']"

definition month_names :: "string list" where
  "month_names = [''January'', ''February'', ''March'', ''April'', ''May'', ''June'', ''July'',
     ''August'', ''September'', ''October'', ''November'', ''December'']"

definition digit_char :: "nat \<Rightarrow> char" where
  "digit_char n = ''0123456789'' ! (n mod 10)"

definition two_digits :: "nat \<Rightarrow> string" where
  "two_digits n = [digit_char (n div 10), digit_char n]"

definition four_digits :: "nat \<Rightarrow> string" where
  "four_digits n = [digit_char (n div 1000), digit_char (n div 100), digit_char (n div 10), digit_char n]"

definition valid_date :: "datetime \<Rightarrow> bool" where
  "valid_date d = (1 \<le> year d \<and> year d \<le> 9999 \<and> 1 \<le> month d \<and> month d \<le> 12 \<and> 1 \<le> day d \<and> day d \<le> 31)"

definition strftime_today :: "datetime \<Rightarrow> string" where
  "strftime_today d =
     (weekday_names ! weekday d) @ '', '' @ (month_names ! (month d - 1)) @ '' '' @ two_digits (day d)
       @ '', '' @ four_digits (year d)"

definition datetime_today :: "('x, datetime) nb" where
  "datetime_today w = \<lparr>result = Inr (clock w), final = w, events = [ClockRead (clock w)]\<rparr>"

subsection \<open>The agent\<close>

definition em_dash :: string where
  "em_dash = [CHR 0xE2, CHR 0x80, CHR 0x94]"

definition right_quote :: string where
  "right_quote = [CHR 0xE2, CHR 0x80, CHR 0x99]"

text \<open>The text of the system message, before and after \<^verbatim>\<open>{today}\<close>. A character outside
  ASCII is written as the bytes of its UTF-8 encoding.\<close>

definition system_prompt_head :: string where
  \<open>system_prompt_head =
     ''\<newline>'' @
     ''        You are a ReAct-style research agent equipped with the following tools:\<newline>'' @
     ''\<newline>'' @
     ''        * **Tavily Web Search**\<newline>'' @
     ''        * **Tavily Web Extract**\<newline>'' @
     ''        * **Tavily Web Crawl**\<newline>'' @
     ''        * **Internal Vector Search** (for proprietary CRM data)\<newline>'' @
     ''\<newline>'' @
     ''        Your mission is to conduct comprehensive, accurate, and up-to-date research, using a combination of real-time public web information and internal enterprise knowledge.  All answers must be grounded in retrieved information from the tools provided. You are not permitted to make up information or rely on prior knowledge.\<newline>'' @
     ''\<newline>'' @
     ''        **Today's Date:** ''\<close>

definition system_prompt_tail :: string where
  \<open>system_prompt_tail =
     ''\<newline>'' @
     ''\<newline>'' @
     ''        **Available Tools:**\<newline>'' @
     ''\<newline>'' @
     ''        1. **Tavily Web Search**\<newline>'' @
     ''\<newline>'' @
     ''        * **Purpose:** Retrieve relevant web pages based on a query.\<newline>'' @
     ''        * **Usage:** Provide a search query to receive up to 10 semantically ranked results, each containing the title, URL, and a content snippet.\<newline>'' @
     ''        * **Best Practices:**\<newline>'' @
     ''            * Use specific queries to narrow down results.\<newline>'' @
     ''                * Example: "OpenAI's latest product release" and "OpenAI's headquarters location" rather than "OpenAI's latest product release and headquarters location"\<newline>'' @
     ''            * Optimize searches using parameters such as `search_depth`, `time_range`, `include_domains`, and `include_raw_content`.\<newline>'' @
     ''            * Break down complex queries into specific, focused sub-queries.\<newline>'' @
     ''\<newline>'' @
     ''        2. **Tavily Web Crawl**\<newline>'' @
     ''\<newline>'' @
     ''        * **Purpose:** Explore a website's structure and gather content from linked pages for deep research and information discovery from a single source.\<newline>'' @
     ''        * **Usage:** Input a base URL to crawl, specifying parameters such as `max_depth`, `max_breadth`, and `extract_depth`.\<newline>'' @
     ''        * **Best Practices:**\<newline>'' @
     ''\<newline>'' @
     ''            * Begin with shallow crawls and progressively increase depth.\<newline>'' @
     ''            * Utilize `select_paths` or `exclude_paths` to focus the crawl.\<newline>'' @
     ''            * Set `extract_depth` to "advanced" for comprehensive extraction.\<newline>'' @
     ''\<newline>'' @
     ''        3. **Tavily Web Extract**\<newline>'' @
     ''\<newline>'' @
     ''        * **Purpose:** Extract the full content from specific web pages.\<newline>'' @
     ''        * **Usage:** Provide URLs to retrieve detailed content.\<newline>'' @
     ''        * **Best Practices:**\<newline>'' @
     ''\<newline>'' @
     ''            * Set `extract_depth` to "advanced" for detailed content, including tables and embedded media.\<newline>'' @
     ''            * Enable `include_images` if image data is necessary.\<newline>'' @
     ''\<newline>'' @
     ''        4. **Internal Vector Search**\<newline>'' @
     ''\<newline>'' @
     ''        * **Purpose:** Search the proprietary CRM knowledge base.\<newline>'' @
     ''        * **Usage:** Submit a natural language query to retrieve relevant context from the CRM vector store. Contains context about key accounts like Meta, Apple, Google, Amazon, Microsoft, and Tesla.\<newline>'' @
     ''        * **Best Practices:**\<newline>'' @
     ''            * When possible, refer to specific information, such as names, dates, product usage, or meetings.\<newline>'' @
     ''            \<newline>'' @
     ''\<newline>'' @
     ''        **Guidelines for Conducting Research:**\<newline>'' @
     ''\<newline>'' @
     ''        * You may not answer questions based on prior knowledge or assumptions.\<newline>'' @
     ''        * **Citations:** Always support findings with source URLs, clearly provided as in-text citations.\<newline>'' @
     ''        * **Accuracy:** Rely solely on data obtained via provided tools (web or vector store) '' @ em_dash @ ''never fabricate information.\<newline>'' @
     ''        * **If none of the tools return useful information, respond:**\<newline>'' @
     ''            * "I'm sorry, but none of the available tools provided sufficient information to answer this question."\<newline>'' @
     ''\<newline>'' @
     ''        **Research Workflow:**\<newline>'' @
     ''\<newline>'' @
     ''        * **Thought:** Consider necessary information and next steps.\<newline>'' @
     ''        * **Action:** Select and execute appropriate tools.\<newline>'' @
     ''        * **Observation:** Analyze obtained results.\<newline>'' @
     ''        **IMPORTANT: Repeat Thought/Action/Observation cycles as needed. You MUST only respond to the user once you have gathered all the information you need.**\<newline>'' @
     ''        * **Final Answer:** Synthesize and present findings with citations in markdown format.\<newline>'' @
     ''        \<newline>'' @
     ''        **Example Workflow:**\<newline>'' @
     ''\<newline>'' @
     ''        **Workflow 4: Combine Web Tools and Vector Search**\<newline>'' @
     ''\<newline>'' @
     ''        **Question:** What has Apple publicly shared about their AI strategy, and do we have any internal notes on recent meetings with them?\<newline>'' @
     ''\<newline>'' @
     ''        * **Thought:** I'' @ right_quote @ ''ll start by looking for Apple'' @ right_quote @ ''s public statements on AI using a search.\<newline>'' @
     ''        * **Action:** Tavily Web Search with the query "Apple AI strategy 2024" and `time_range` set to "month".\<newline>'' @
     ''        * **Observation:** Found a recent article from Apple'' @ right_quote @ ''s newsroom and a keynote transcript.\<newline>'' @
     ''        * **Thought:** I want to read the full content of Apple'' @ right_quote @ ''s keynote.\<newline>'' @
     ''        * **Action:** Tavily Web Extract on the URL from the search result.\<newline>'' @
     ''        * **Observation:** Extracted detailed content from Apple'' @ right_quote @ ''s announcement.\<newline>'' @
     ''        * **Thought:** Now, I'' @ right_quote @ ''ll check our internal CRM data for recent meeting notes with Apple.\<newline>'' @
     ''        * **Action:** Internal Vector Search with the query "recent Apple meetings AI strategy".\<newline>'' @
     ''        * **Observation:** Retrieved notes from a Q2 strategy sync with Apple'' @ right_quote @ ''s enterprise team.\<newline>'' @
     ''        * **Final Answer:** Synthesized response combining public and internal data, with citations.\<newline>'' @
     ''        ---\<newline>'' @
     ''\<newline>'' @
     ''        You will now receive a research question from the user:\<newline>'' @
     ''        ''\<close>

definition system_prompt :: "string \<Rightarrow> string" where
  "system_prompt today = system_prompt_head @ today @ system_prompt_tail"

text \<open>
  \<^verbatim>\<open>
  today = datetime.datetime.today().strftime("%A, %B %d, %Y")
  hybrid_agent = create_react_agent(
      model=gpt_4_1,
      tools=[search, crawl, extract, vector_search_tool],
      prompt=ChatPromptTemplate.from_messages(
          [("system", f"""...{today}..."""), MessagesPlaceholder(variable_name="messages")]),
      name="hybrid_agent")
  \<close>
\<close>

definition cell_agent ::
  "'x library \<Rightarrow> pyval \<Rightarrow> pyval \<Rightarrow> pyval \<Rightarrow> pyval \<Rightarrow> pyval \<Rightarrow> ('x, pyval) nb" where
  "cell_agent lib gpt_4_1 search crawl extract vector_search_tool =
     bind datetime_today (\<lambda>now.
     (let today = strftime_today now in
     bind (call lib (Call ''MessagesPlaceholder'' [] [(''variable_name'', VStr ''messages'')]))
       (\<lambda>placeholder.
     bind (call lib (Call ''ChatPromptTemplate.from_messages''
             [VList [VTuple [VStr ''system'', VStr (system_prompt today)], placeholder]] []))
       (\<lambda>prompt.
     call lib (Call ''create_react_agent'' []
       [(''model'', gpt_4_1),
        (''tools'', VList [search, crawl, extract, vector_search_tool]),
        (''prompt'', prompt),
        (''name'', VStr ''hybrid_agent'')])))))"

subsection \<open>Invoking the agent\<close>

text \<open>
  \<^verbatim>\<open>
  for s in hybrid_agent.stream(inputs, stream_mode="values"):
      message = s["messages"][-1]
      if isinstance(message, tuple):
          print(message)
      else:
          message.pretty_print()
  \<close>
  The loop variable \<^verbatim>\<open>message\<close> stays bound after the loop; it is \<^verbatim>\<open>None\<close> here while
  no iteration has assigned it.
\<close>

fun stream_loop :: "'x library \<Rightarrow> pyval option \<Rightarrow> pyval list \<Rightarrow> ('x, pyval option) nb" where
  "stream_loop lib message [] = return message"
| "stream_loop lib message (s # ss) =
     bind (lift (getitem s ''messages'')) (\<lambda>messages.
     bind (lift (getitem_last messages)) (\<lambda>message.
     bind (if isinstance_tuple message
           then call lib (Call ''print'' [message] [])
           else call lib (Call ''pretty_print'' [message] [])) (\<lambda>_.
     stream_loop lib (Some message) ss)))"

text \<open>
  \<^verbatim>\<open>
  inputs = {"messages": [HumanMessage(content=QUESTION)]}
  for s in hybrid_agent.stream(inputs, stream_mode="values"): ...
  \<close>
  The library bounds the number of steps of an agent, so the snapshots of one call are
  a finite sequence; the agent's own work is inside the \<^verbatim>\<open>stream\<close> call.
\<close>

definition cell_invoke ::
  "'x library \<Rightarrow> pyval \<Rightarrow> string \<Rightarrow> pyval option \<Rightarrow> ('x, pyval option) nb" where
  "cell_invoke lib hybrid_agent question message =
     bind (call lib (Call ''HumanMessage'' [] [(''content'', VStr question)])) (\<lambda>human.
     (let inputs = VDict [(''messages'', VList [human])] in
     bind (call lib (Call ''stream'' [hybrid_agent, inputs] [(''stream_mode'', VStr ''values'')]))
       (\<lambda>snapshots.
     bind (lift (py_iter snapshots)) (\<lambda>(ss, fin).
     bind (stream_loop lib message ss) (\<lambda>message.
     finish fin message)))))"

text \<open>\<^verbatim>\<open>Markdown(message.content)\<close>\<close>

definition cell_markdown :: "'x library \<Rightarrow> pyval option \<Rightarrow> ('x, pyval) nb" where
  "cell_markdown lib message =
     (case message of
        None \<Rightarrow> raise (Exc ''NameError'')
      | Some m \<Rightarrow> bind (lift (getattr m ''content'')) (\<lambda>content. call lib (Call ''Markdown'' [content] [])))"

definition question1 :: string where
  "question1 = ''Search for the latest news on google relevant to our current CRM data on them''"

definition question2 :: string where
  "question2 = ''Check for the Google Deal size and find the latest earnings report for them to validate if they are in spending spree''"

subsection \<open>The notebook, top to bottom\<close>

definition build :: "'x library \<Rightarrow> ('x, pyval) nb" where
  "build lib =
     bind (cell_env_file lib) (\<lambda>_.
     bind (cell_install lib) (\<lambda>_.
     bind (cell_setup lib) (\<lambda>tavily_client.
     bind (cell_vector_store lib) (\<lambda>(embeddings, vector_store).
     bind (cell_retriever lib vector_store) (\<lambda>(retriever, search_results).
     bind (cell_print_results lib search_results) (\<lambda>_.
     bind (cell_tools lib retriever) (\<lambda>(vector_search_tool, search, extract, crawl).
     bind (cell_models lib) (\<lambda>(o3_mini, gpt_4_1).
     cell_agent lib gpt_4_1 search crawl extract vector_search_tool))))))))"

definition notebook :: "'x library \<Rightarrow> ('x, pyval) nb" where
  "notebook lib =
     bind (build lib) (\<lambda>hybrid_agent.
     bind (cell_invoke lib hybrid_agent question1 None) (\<lambda>message.
     bind (cell_markdown lib message) (\<lambda>_.
     bind (cell_invoke lib hybrid_agent question2 message) (\<lambda>message.
     cell_markdown lib message))))"

section \<open>Reading a trace\<close>

fun call_name :: "call \<Rightarrow> string" where
  "call_name (Call n args kwargs) = n"

fun kwargs :: "call \<Rightarrow> (string \<times> pyval) list" where
  "kwargs (Call n args kw) = kw"

fun calls_of :: "event list \<Rightarrow> call list" where
  "calls_of [] = []"
| "calls_of (ECall c r # evs) = c # calls_of evs"
| "calls_of (ev # evs) = calls_of evs"

text \<open>The calls of a given name, in order; the values returned by the calls that satisfy a
  condition, and by the calls of a given name.\<close>

definition calls_named :: "string \<Rightarrow> event list \<Rightarrow> call list" where
  "calls_named n evs = filter (\<lambda>c. call_name c = n) (calls_of evs)"

fun returned :: "(call \<Rightarrow> bool) \<Rightarrow> event list \<Rightarrow> pyval list" where
  "returned P [] = []"
| "returned P (ECall c (Inr v) # evs) = (if P c then v # returned P evs else returned P evs)"
| "returned P (ev # evs) = returned P evs"

definition results_of :: "string \<Rightarrow> event list \<Rightarrow> pyval list" where
  "results_of n evs = returned (\<lambda>c. call_name c = n) evs"




section \<open>A library to run the notebook on\<close>

text \<open>A small library for concrete runs: the prompt returns a typed key, the retriever one
  document, the agent two snapshots (the question, then the question and an answer), and
  every constructor an object of its name that holds its keyword arguments.\<close>

definition demo_human :: pyval where
  "demo_human = VObj ''HumanMessage'' [(''content'', VStr ''question'')]"

definition demo_answer :: pyval where
  "demo_answer = VObj ''AIMessage'' [(''content'', VStr ''answer'')]"

definition demo_lib :: "unit library" where
  "demo_lib c w =
     (let n = call_name c in
      if n = ''getpass.getpass'' then (Inr (VStr ''typed-key''), w)
      else if n = ''invoke'' then (Inr (VList [VObj ''Document'' [(''page_content'', VStr ''robot arms'')]]), w)
      else if n = ''stream'' then
        (Inr (VGen [VDict [(''messages'', VList [demo_human])],
                    VDict [(''messages'', VList [demo_human, demo_answer])]] None), w)
      else if n = ''print'' \<or> n = ''pretty_print'' \<or> n = ''!'' \<or> n = ''%pip'' \<or> n = ''load_dotenv''
        then (Inr VNone, w)
      else (Inr (VObj n (kwargs c)), w))"


definition demo_clock :: datetime where
  "demo_clock = \<lparr>year = 2025, month = 6, day = 23, hour = 9, minute = 30, second = 0, microsecond = 0\<rparr>"

definition demo_world :: "(string \<rightharpoonup> string) \<Rightarrow> unit world" where
  "demo_world e = \<lparr>env = e, clock = demo_clock,
     store = [(''supplemental/db'', ''crm'') \<mapsto> [''Google Cloud ML Ops'']], rest = ()\<rparr>"

section \<open>Properties of every run\<close>

text \<open>\<open>emits m Q\<close>: whatever the world, the outcome and the events of \<open>m\<close> satisfy \<open>Q\<close>.\<close>

definition emits :: "('x, 'a) nb \<Rightarrow> ((error + 'a) \<Rightarrow> event list \<Rightarrow> bool) \<Rightarrow> bool" where
  "emits m Q = (\<forall>w. Q (result (m w)) (events (m w)))"

subsection \<open>Exceptions end the run\<close>




subsection \<open>The vector store is left alone\<close>





text \<open>\<open>only_calls P m\<close>: every library call of every run of \<open>m\<close> satisfies \<open>P\<close>.\<close>

definition only_calls :: "(call \<Rightarrow> bool) \<Rightarrow> ('x, 'a) nb \<Rightarrow> bool" where
  "only_calls P m = emits m (\<lambda>r evs. list_all P (calls_of evs))"


subsection \<open>What an invocation prints\<close>

text \<open>\<^verbatim>\<open>s["messages"][-1]\<close>, the last message of a snapshot.\<close>

definition last_message :: "pyval \<Rightarrow> error + pyval" where
  "last_message s = (case getitem s ''messages'' of Inl e \<Rightarrow> Inl e | Inr messages \<Rightarrow> getitem_last messages)"

text \<open>The call that prints a message: \<^verbatim>\<open>print\<close> for a tuple, its own \<^verbatim>\<open>pretty_print\<close> otherwise.\<close>

definition show_call :: "pyval \<Rightarrow> call" where
  "show_call m = (if isinstance_tuple m then Call ''print'' [m] [] else Call ''pretty_print'' [m] [])"

text \<open>The event prints the last message of the snapshot.\<close>

definition shown :: "pyval \<Rightarrow> event \<Rightarrow> bool" where
  "shown s ev = (case last_message s of
       Inl e \<Rightarrow> False
     | Inr m \<Rightarrow> (case ev of ECall c r \<Rightarrow> c = show_call m | _ \<Rightarrow> False))"

text \<open>The two calls an invocation cell starts with, for a question and an agent.\<close>

definition human_call :: "string \<Rightarrow> call" where
  "human_call question = Call ''HumanMessage'' [] [(''content'', VStr question)]"

definition stream_call :: "pyval \<Rightarrow> pyval \<Rightarrow> call" where
  "stream_call hybrid_agent human =
     Call ''stream'' [hybrid_agent, VDict [(''messages'', VList [human])]] [(''stream_mode'', VStr ''values'')]"

subsection \<open>The calls of agent construction\<close>

definition placeholder_call :: call where
  "placeholder_call = Call ''MessagesPlaceholder'' [] [(''variable_name'', VStr ''messages'')]"

definition template_call :: "string \<Rightarrow> pyval \<Rightarrow> call" where
  "template_call text placeholder =
     Call ''ChatPromptTemplate.from_messages'' [VList [VTuple [VStr ''system'', VStr text], placeholder]] []"

definition factory_call :: "pyval \<Rightarrow> pyval list \<Rightarrow> pyval \<Rightarrow> call" where
  "factory_call model tools prompt =
     Call ''create_react_agent'' []
       [(''model'', model), (''tools'', VList tools), (''prompt'', prompt), (''name'', VStr ''hybrid_agent'')]"

text \<open>The text of the system message of a prompt template call, and the texts of a trace.\<close>

definition system_text :: "call \<Rightarrow> string option" where
  "system_text c =
     (case c of Call n args kw \<Rightarrow>
        if n = ''ChatPromptTemplate.from_messages'' then
          (case args of
             [VList (VTuple [VStr role, VStr text] # others)] \<Rightarrow> if role = ''system'' then Some text else None
           | _ \<Rightarrow> None)
        else None)"

definition prompt_texts :: "event list \<Rightarrow> string list" where
  "prompt_texts evs = List.map_filter system_text (calls_of evs)"

fun clock_reads :: "event list \<Rightarrow> datetime list" where
  "clock_reads [] = []"
| "clock_reads (ClockRead d # evs) = d # clock_reads evs"
| "clock_reads (ev # evs) = clock_reads evs"

definition date_of :: "datetime \<Rightarrow> nat \<times> nat \<times> nat" where
  "date_of d = (year d, month d, day d)"

subsection \<open>Scripts: the operations of a run, without their data\<close>









subsection \<open>How the agent is wired\<close>

text \<open>The names of the tool constructors, in the order in which the tools cell calls them.\<close>

definition tool_order :: "string list" where
  "tool_order = [''as_tool'', ''TavilySearch'', ''TavilyExtract'', ''TavilyCrawl'']"

definition tool_calls :: "event list \<Rightarrow> call list" where
  "tool_calls evs = filter (\<lambda>c. call_name c \<in> set tool_order) (calls_of evs)"

definition agent_calls :: "event list \<Rightarrow> call list" where
  "agent_calls evs = calls_named ''create_react_agent'' evs"

text \<open>A construction of a chat model handle for the model of a given name.\<close>

definition is_chat_model :: "string \<Rightarrow> call \<Rightarrow> bool" where
  "is_chat_model m c = (call_name c = ''ChatOpenAI'' \<and> map_of (kwargs c) ''model'' = Some (VStr m))"

text \<open>The wiring of a trace: the tool constructions are a first part of the four of the
  tools cell, in its order; and if the agent factory is called, it is called once, after
  exactly one construction of each tool, of the \<^verbatim>\<open>gpt-4.1\<close> handle and of the prompt
  template (whose system text is the prompt formatted with a date read from the clock),
  and its arguments are these values.\<close>

definition wiring :: "event list \<Rightarrow> bool" where
  "wiring evs =
     (prefix (map call_name (tool_calls evs)) tool_order
      \<and> (case agent_calls evs of
           [] \<Rightarrow> True
         | c # cs \<Rightarrow>
             cs = []
             \<and> map call_name (tool_calls evs) = tool_order
             \<and> length (results_of ''TavilySearch'' evs) = 1
             \<and> length (results_of ''TavilyCrawl'' evs) = 1
             \<and> length (results_of ''TavilyExtract'' evs) = 1
             \<and> length (results_of ''as_tool'' evs) = 1
             \<and> length (returned (is_chat_model ''gpt-4.1'') evs) = 1
             \<and> length (results_of ''ChatPromptTemplate.from_messages'' evs) = 1
             \<and> c = factory_call (hd (returned (is_chat_model ''gpt-4.1'') evs))
                   [hd (results_of ''TavilySearch'' evs), hd (results_of ''TavilyCrawl'' evs),
                    hd (results_of ''TavilyExtract'' evs), hd (results_of ''as_tool'' evs)]
                   (hd (results_of ''ChatPromptTemplate.from_messages'' evs))
             \<and> (\<exists>d \<in> set (clock_reads evs).
                   map system_text (calls_named ''ChatPromptTemplate.from_messages'' evs)
                     = [Some (system_prompt (strftime_today d))])))"

text \<open>The calls that take no part in the wiring.\<close>

definition aside :: "call \<Rightarrow> bool" where
  "aside c = (call_name c \<notin> set (tool_order @ [''ChatOpenAI'', ''ChatPromptTemplate.from_messages'',
     ''create_react_agent'']))"

subsection \<open>The notebook without the two handles it does not use\<close>

text \<open>The setup cell without its last line, the construction of \<^verbatim>\<open>tavily_client\<close>.\<close>

definition cell_setup_without_client :: "'x library \<Rightarrow> ('x, unit) nb" where
  "cell_setup_without_client lib =
     bind (call lib (Call ''load_dotenv'' [] [])) (\<lambda>_.
     bind (prompt_if_unset lib TAVILY_API_KEY tavily_prompt) (\<lambda>_.
     bind (prompt_if_unset lib OPENAI_API_KEY openai_prompt) (\<lambda>_.
     return ())))"

text \<open>The models cell without the construction of \<^verbatim>\<open>o3_mini\<close>.\<close>

definition cell_models_without_o3 :: "'x library \<Rightarrow> ('x, pyval) nb" where
  "cell_models_without_o3 lib =
     bind (environ_get OPENAI_API_KEY) (\<lambda>api_key.
     bind (call lib (Call ''ChatOpenAI'' [] [(''model'', VStr ''gpt-4.1''), (''api_key'', api_key)]))
       (\<lambda>gpt_4_1.
     return gpt_4_1))"

definition build_without_unused :: "'x library \<Rightarrow> ('x, pyval) nb" where
  "build_without_unused lib =
     bind (cell_env_file lib) (\<lambda>_.
     bind (cell_install lib) (\<lambda>_.
     bind (cell_setup_without_client lib) (\<lambda>_.
     bind (cell_vector_store lib) (\<lambda>(embeddings, vector_store).
     bind (cell_retriever lib vector_store) (\<lambda>(retriever, search_results).
     bind (cell_print_results lib search_results) (\<lambda>_.
     bind (cell_tools lib retriever) (\<lambda>(vector_search_tool, search, extract, crawl).
     bind (cell_models_without_o3 lib) (\<lambda>gpt_4_1.
     cell_agent lib gpt_4_1 search crawl extract vector_search_tool))))))))"

definition notebook_without_unused :: "'x library \<Rightarrow> ('x, pyval) nb" where
  "notebook_without_unused lib =
     bind (build_without_unused lib) (\<lambda>hybrid_agent.
     bind (cell_invoke lib hybrid_agent question1 None) (\<lambda>message.
     bind (cell_markdown lib message) (\<lambda>_.
     bind (cell_invoke lib hybrid_agent question2 message) (\<lambda>message.
     cell_markdown lib message))))"

text \<open>The two constructions that are removed, and a library in which they do nothing to
  the world.\<close>

definition unused_construction :: "call \<Rightarrow> bool" where
  "unused_construction c = (call_name c = ''TavilyClient'' \<or> is_chat_model ''o3-mini-2025-01-31'' c)"

definition side_effect_free :: "'x library \<Rightarrow> bool" where
  "side_effect_free lib = (\<forall>c w. unused_construction c \<longrightarrow> snd (lib c w) = w)"

text \<open>What the rest of the world sees of a run: its library calls other than the two
  constructions, with their outcomes, its writes to the environment and its readings of
  the clock.\<close>

fun observable :: "event \<Rightarrow> bool" where
  "observable (ECall c r) = (\<not> unused_construction c)"
| "observable (EnvGet k v) = False"
| "observable (EnvSet k v) = True"
| "observable (ClockRead d) = True"

definition observed :: "event list \<Rightarrow> event list" where
  "observed evs = filter observable evs"

text \<open>\<open>simulates R m n\<close>: whenever \<open>m\<close> completes, \<open>n\<close> completes from the same world with
  a related value, the same final world and the same observed events.\<close>

definition simulates :: "('a \<Rightarrow> 'b \<Rightarrow> bool) \<Rightarrow> ('x, 'a) nb \<Rightarrow> ('x, 'b) nb \<Rightarrow> bool" where
  "simulates R m n =
     (\<forall>w a. result (m w) = Inr a \<longrightarrow>
        (\<exists>b. result (n w) = Inr b \<and> R a b)
        \<and> final (n w) = final (m w)
        \<and> observed (events (n w)) = observed (events (m w)))"

section \<open>Rules for runs\<close>

lemma emitsD: "emits m Q \<Longrightarrow> Q (result (m w)) (events (m w))"
  by (simp add: emits_def)

lemma emits_return: "Q (Inr v) [] \<Longrightarrow> emits (return v) Q"
  by (simp add: emits_def return_def)




lemma emits_call: "(\<And>r. Q r [ECall c r]) \<Longrightarrow> emits (call lib c) Q"
  by (simp add: emits_def call_def)


lemma emits_environ_get:
  "(\<And>v. Q (Inr (case v of None \<Rightarrow> VNone | Some x \<Rightarrow> VStr x)) [EnvGet k v]) \<Longrightarrow> emits (environ_get k) Q"
  by (simp add: emits_def environ_get_def)


lemma emits_datetime_today: "(\<And>d. Q (Inr d) [ClockRead d]) \<Longrightarrow> emits datetime_today Q"
  by (simp add: emits_def datetime_today_def)

text \<open>Sequencing: the continuation runs only after a value, and its events come after.\<close>

lemma emits_bind:
  assumes "emits m (\<lambda>r evs. case r of Inl e \<Rightarrow> Q (Inl e) evs
             | Inr v \<Rightarrow> emits (f v) (\<lambda>r' evs'. Q r' (evs @ evs')))"
  shows "emits (bind m f) Q"
  unfolding emits_def
proof
  fix w
  from assms have q: "case result (m w) of Inl e \<Rightarrow> Q (Inl e) (events (m w))
     | Inr v \<Rightarrow> emits (f v) (\<lambda>r' evs'. Q r' (events (m w) @ evs'))"
    by (simp add: emits_def)
  show "Q (result (bind m f w)) (events (bind m f w))"
  proof (cases "result (m w)")
    case (Inl e)
    with q show ?thesis by (simp add: bind_def Let_def)
  next
    case (Inr v)
    with q have "emits (f v) (\<lambda>r' evs'. Q r' (events (m w) @ evs'))" by simp
    then have "Q (result (f v (final (m w)))) (events (m w) @ events (f v (final (m w))))"
      by (simp add: emits_def)
    with Inr show ?thesis by (simp add: bind_def Let_def)
  qed
qed

lemma emits_weaken: "emits m P \<Longrightarrow> (\<And>r evs. P r evs \<Longrightarrow> Q r evs) \<Longrightarrow> emits m Q"
  unfolding emits_def by blast



lemmas eval_defs = bind_def return_def raise_def call_def lift_def finish_def getpass_def
  environ_get_def environ_setitem_def datetime_today_def Let_def

section \<open>Credentials\<close>












section \<open>Exceptions\<close>




































section \<open>The calls of a run\<close>

lemma calls_of_append: "calls_of (evs @ evs') = calls_of evs @ calls_of evs'"
  by (induction evs rule: calls_of.induct) simp_all

lemma only_calls_bind:
  fixes m :: "('x, 'a) nb" and f :: "'a \<Rightarrow> ('x, 'b) nb"
  assumes m: "only_calls P m" and f: "\<And>v. only_calls P (f v)"
  shows "only_calls P (bind m f)"
  unfolding only_calls_def
proof (rule emits_bind, rule emits_weaken [OF m [unfolded only_calls_def]])
  fix r :: "error + 'a" and evs
  assume p: "list_all P (calls_of evs)"
  show "case r of Inl e \<Rightarrow> list_all P (calls_of evs)
     | Inr v \<Rightarrow> emits (f v) (\<lambda>r' evs'. list_all P (calls_of (evs @ evs')))"
  proof (cases r)
    case (Inl e)
    with p show ?thesis by simp
  next
    case (Inr v)
    have "emits (f v) (\<lambda>r' evs'. list_all P (calls_of (evs @ evs')))"
      by (rule emits_weaken [OF f [unfolded only_calls_def]]) (simp add: calls_of_append p)
    with Inr show ?thesis by simp
  qed
qed

lemma only_calls_call: "P c \<Longrightarrow> only_calls P (call lib c)"
  by (simp add: only_calls_def emits_def call_def)

lemma only_calls_getpass: "P (Call ''getpass.getpass'' [VStr p] []) \<Longrightarrow> only_calls P (getpass lib p)"
  unfolding getpass_def by (rule only_calls_call)

lemma only_calls_return: "only_calls P (return v)"
  by (simp add: only_calls_def emits_def return_def)

lemma only_calls_raise: "only_calls P (raise e)"
  by (simp add: only_calls_def emits_def raise_def)

lemma only_calls_lift: "only_calls P (lift r)"
  by (simp add: only_calls_def emits_def lift_def)

lemma only_calls_finish: "only_calls P (finish fin v)"
  by (cases fin) (simp_all add: finish_def only_calls_return only_calls_raise)

lemma only_calls_environ_get: "only_calls P (environ_get k)"
  by (simp add: only_calls_def emits_def environ_get_def)

lemma only_calls_environ_setitem: "only_calls P (environ_setitem k v)"
  by (cases v) (simp_all add: only_calls_def emits_def environ_setitem_def)

lemma only_calls_datetime_today: "only_calls P datetime_today"
  by (simp add: only_calls_def emits_def datetime_today_def)

lemma only_calls_if: "only_calls P m \<Longrightarrow> only_calls P n \<Longrightarrow> only_calls P (if b then m else n)"
  by simp

lemma only_calls_case_prod: "(\<And>a b. only_calls P (f a b)) \<Longrightarrow> only_calls P (case_prod f p)"
  by (cases p) simp

lemma only_calls_case_option:
  "only_calls P n \<Longrightarrow> (\<And>x. only_calls P (f x)) \<Longrightarrow> only_calls P (case_option n f v)"
  by (cases v) simp_all

lemmas only_calls_intros = only_calls_bind only_calls_call only_calls_getpass only_calls_return
  only_calls_raise only_calls_lift only_calls_finish only_calls_environ_get
  only_calls_environ_setitem only_calls_datetime_today only_calls_if only_calls_case_prod
  only_calls_case_option

lemma only_calls_for_each: "(\<And>x. only_calls P (body x)) \<Longrightarrow> only_calls P (for_each body xs)"
  by (induction xs) (auto intro!: only_calls_intros)

lemma only_calls_stream_loop:
  "(\<And>m. P (Call ''print'' [m] [])) \<Longrightarrow> (\<And>m. P (Call ''pretty_print'' [m] []))
    \<Longrightarrow> only_calls P (stream_loop lib message ss)"
  by (induction ss arbitrary: message) (auto intro!: only_calls_intros)


section \<open>The vector store\<close>

































section \<open>Invocation\<close>

lemma calls_named_append: "calls_named n (evs @ evs') = calls_named n evs @ calls_named n evs'"
  by (simp add: calls_named_def calls_of_append)

lemma stream_loop_Cons:
  "stream_loop lib m0 (s # ss) w =
     (case last_message s of
        Inl e \<Rightarrow> \<lparr>result = Inl e, final = w, events = []\<rparr>
      | Inr msg \<Rightarrow>
          (case fst (lib (show_call msg) w) of
             Inl e \<Rightarrow> \<lparr>result = Inl e, final = snd (lib (show_call msg) w),
                        events = [ECall (show_call msg) (Inl e)]\<rparr>
           | Inr v \<Rightarrow>
               \<lparr>result = result (stream_loop lib (Some msg) ss (snd (lib (show_call msg) w))),
                final = final (stream_loop lib (Some msg) ss (snd (lib (show_call msg) w))),
                events = ECall (show_call msg) (Inr v)
                  # events (stream_loop lib (Some msg) ss (snd (lib (show_call msg) w)))\<rparr>))"
  by (simp add: last_message_def show_call_def eval_defs split: sum.splits)

lemma stream_loop_shown:
  "result (stream_loop lib m0 ss w) = Inr m \<Longrightarrow> list_all2 shown ss (events (stream_loop lib m0 ss w))"
proof (induction ss arbitrary: m0 w)
  case Nil
  then show ?case by (simp add: return_def)
next
  case (Cons s ss)
  from Cons.prems obtain msg where msg: "last_message s = Inr msg"
    by (cases "last_message s") (simp_all add: stream_loop_Cons del: stream_loop.simps)
  from Cons.prems msg obtain v where v: "fst (lib (show_call msg) w) = Inr v"
    by (cases "fst (lib (show_call msg) w)") (simp_all add: stream_loop_Cons del: stream_loop.simps)
  from Cons.prems msg v
  have "result (stream_loop lib (Some msg) ss (snd (lib (show_call msg) w))) = Inr m"
    by (simp add: stream_loop_Cons del: stream_loop.simps)
  then have "list_all2 shown ss (events (stream_loop lib (Some msg) ss (snd (lib (show_call msg) w))))"
    by (rule Cons.IH)
  moreover have "shown s (ECall (show_call msg) (Inr v))"
    using msg by (simp add: shown_def)
  ultimately show ?case
    using msg v by (simp add: stream_loop_Cons del: stream_loop.simps)
qed

lemma stream_loop_quiet:
  "n \<noteq> ''print'' \<Longrightarrow> n \<noteq> ''pretty_print'' \<Longrightarrow> calls_named n (events (stream_loop lib m0 ss w)) = []"
proof (induction ss arbitrary: m0 w)
  case Nil
  then show ?case by (simp add: return_def calls_named_def)
next
  case (Cons s ss)
  then show ?case
    by (simp add: stream_loop_Cons calls_named_def show_call_def del: stream_loop.simps split: sum.splits)
qed

lemma cell_invoke_run:
  "cell_invoke lib hybrid_agent question m0 w =
     (case fst (lib (human_call question) w) of
        Inl e \<Rightarrow> \<lparr>result = Inl e, final = snd (lib (human_call question) w),
                   events = [ECall (human_call question) (Inl e)]\<rparr>
      | Inr human \<Rightarrow>
          (let w1 = snd (lib (human_call question) w) in
           case fst (lib (stream_call hybrid_agent human) w1) of
             Inl e \<Rightarrow> \<lparr>result = Inl e, final = snd (lib (stream_call hybrid_agent human) w1),
                        events = [ECall (human_call question) (Inr human),
                                  ECall (stream_call hybrid_agent human) (Inl e)]\<rparr>
           | Inr snapshots \<Rightarrow>
               (let w2 = snd (lib (stream_call hybrid_agent human) w1) in
                case py_iter snapshots of
                  Inl e \<Rightarrow> \<lparr>result = Inl e, final = w2,
                             events = [ECall (human_call question) (Inr human),
                                       ECall (stream_call hybrid_agent human) (Inr snapshots)]\<rparr>
                | Inr (ss, fin) \<Rightarrow>
                    (let l = stream_loop lib m0 ss w2 in
                     \<lparr>result = (case result l of Inl e \<Rightarrow> Inl e
                                 | Inr m \<Rightarrow> (case fin of None \<Rightarrow> Inr m | Some e \<Rightarrow> Inl e)),
                      final = final l,
                      events = ECall (human_call question) (Inr human)
                        # ECall (stream_call hybrid_agent human) (Inr snapshots) # events l\<rparr>))))"
  by (simp add: cell_invoke_def human_call_def stream_call_def eval_defs split: sum.splits option.splits)

text \<open>
  C3: an invocation cell makes one call of the agent, with one user message, and prints
  the last message of every snapshot, in order. When the cell completes, its events are
  exactly: the construction of the user message for the question; one \<^verbatim>\<open>stream\<close> call of
  the agent on an input whose message list holds that one message; then one printing
  event per snapshot of the returned sequence, in the order of the sequence, each
  printing \<^verbatim>\<open>s["messages"][-1]\<close> of its snapshot (with \<^verbatim>\<open>print\<close> when it is a tuple, with
  its \<^verbatim>\<open>pretty_print\<close> otherwise). In any run, completed or not, \<^verbatim>\<open>stream\<close> is called at
  most once.
\<close>

theorem invocation_prints_last_message_of_each_snapshot:
  assumes "result (cell_invoke lib hybrid_agent question message w) = Inr m"
  shows "(\<exists>human snapshots ss prints.
       events (cell_invoke lib hybrid_agent question message w) =
         ECall (human_call question) (Inr human)
         # ECall (stream_call hybrid_agent human) (Inr snapshots) # prints
       \<and> py_iter snapshots = Inr (ss, None)
       \<and> list_all2 shown ss prints)
    \<and> length (calls_named ''stream'' (events (cell_invoke lib hybrid_agent question message w))) = 1"
proof -
  let ?w1 = "snd (lib (human_call question) w)"
  from assms obtain human where h: "fst (lib (human_call question) w) = Inr human"
    by (cases "fst (lib (human_call question) w)") (simp_all add: cell_invoke_run)
  let ?w2 = "snd (lib (stream_call hybrid_agent human) ?w1)"
  from assms h obtain snapshots where s: "fst (lib (stream_call hybrid_agent human) ?w1) = Inr snapshots"
    by (cases "fst (lib (stream_call hybrid_agent human) ?w1)") (simp_all add: cell_invoke_run)
  from assms h s obtain ss fin where it: "py_iter snapshots = Inr (ss, fin)"
    by (cases "py_iter snapshots") (auto simp add: cell_invoke_run)
  from assms h s it obtain m' where l: "result (stream_loop lib message ss ?w2) = Inr m'"
    by (cases "result (stream_loop lib message ss ?w2)") (simp_all add: cell_invoke_run Let_def)
  from assms h s it l have fin: "fin = None"
    by (cases fin) (simp_all add: cell_invoke_run Let_def)
  have ev: "events (cell_invoke lib hybrid_agent question message w) =
      ECall (human_call question) (Inr human)
      # ECall (stream_call hybrid_agent human) (Inr snapshots) # events (stream_loop lib message ss ?w2)"
    using h s it by (simp add: cell_invoke_run Let_def)
  have sh: "list_all2 shown ss (events (stream_loop lib message ss ?w2))"
    using l by (rule stream_loop_shown)
  have q: "calls_named ''stream'' (events (stream_loop lib message ss ?w2)) = []"
    by (rule stream_loop_quiet) simp_all
  have "calls_named ''stream'' (events (cell_invoke lib hybrid_agent question message w))
      = calls_named ''stream'' [ECall (human_call question) (Inr human),
          ECall (stream_call hybrid_agent human) (Inr snapshots)]
        @ calls_named ''stream'' (events (stream_loop lib message ss ?w2))"
    using calls_named_append [of "''stream''" "[ECall (human_call question) (Inr human),
          ECall (stream_call hybrid_agent human) (Inr snapshots)]" "events (stream_loop lib message ss ?w2)"]
    by (simp add: ev)
  then have one: "length (calls_named ''stream'' (events (cell_invoke lib hybrid_agent question message w))) = 1"
    by (simp add: q) (simp add: calls_named_def human_call_def stream_call_def)
  show ?thesis
  proof (intro conjI exI)
    show "events (cell_invoke lib hybrid_agent question message w) =
      ECall (human_call question) (Inr human)
      # ECall (stream_call hybrid_agent human) (Inr snapshots) # events (stream_loop lib message ss ?w2)"
      by (rule ev)
    show "py_iter snapshots = Inr (ss, None)"
      using it fin by simp
    show "list_all2 shown ss (events (stream_loop lib message ss ?w2))"
      by (rule sh)
    show "length (calls_named ''stream'' (events (cell_invoke lib hybrid_agent question message w))) = 1"
      by (rule one)
  qed
qed

theorem invocation_prints_last_message_of_each_snapshot_witness:
  "(\<exists>human snapshots ss prints.
       events (cell_invoke demo_lib (VObj ''create_react_agent'' []) question1 None (demo_world Map.empty)) =
         ECall (human_call question1) (Inr human)
         # ECall (stream_call (VObj ''create_react_agent'' []) human) (Inr snapshots) # prints
       \<and> py_iter snapshots = Inr (ss, None)
       \<and> list_all2 shown ss prints)
   \<and> calls_named ''pretty_print''
        (events (cell_invoke demo_lib (VObj ''create_react_agent'' []) question1 None (demo_world Map.empty)))
      = [Call ''pretty_print'' [demo_human] [], Call ''pretty_print'' [demo_answer] []]"
proof -
  have r: "result (cell_invoke demo_lib (VObj ''create_react_agent'' []) question1 None (demo_world Map.empty))
      = Inr (Some demo_answer)"
    by (simp add: cell_invoke_def eval_defs demo_lib_def demo_human_def demo_answer_def)
  have p: "calls_named ''pretty_print''
        (events (cell_invoke demo_lib (VObj ''create_react_agent'' []) question1 None (demo_world Map.empty)))
      = [Call ''pretty_print'' [demo_human] [], Call ''pretty_print'' [demo_answer] []]"
    by (simp add: cell_invoke_def eval_defs demo_lib_def demo_human_def demo_answer_def calls_named_def)
  from p show ?thesis
    using invocation_prints_last_message_of_each_snapshot [OF r] by blast
qed

section \<open>Agent construction\<close>

lemma cell_agent_run:
  "cell_agent lib gpt_4_1 search crawl extract vector_search_tool w =
     (let text = system_prompt (strftime_today (clock w)) in
      case fst (lib placeholder_call w) of
        Inl e \<Rightarrow> \<lparr>result = Inl e, final = snd (lib placeholder_call w),
                   events = [ClockRead (clock w), ECall placeholder_call (Inl e)]\<rparr>
      | Inr placeholder \<Rightarrow>
          (let w1 = snd (lib placeholder_call w) in
           case fst (lib (template_call text placeholder) w1) of
             Inl e \<Rightarrow> \<lparr>result = Inl e, final = snd (lib (template_call text placeholder) w1),
                        events = [ClockRead (clock w), ECall placeholder_call (Inr placeholder),
                                  ECall (template_call text placeholder) (Inl e)]\<rparr>
           | Inr prompt \<Rightarrow>
               (let w2 = snd (lib (template_call text placeholder) w1);
                    c = factory_call gpt_4_1 [search, crawl, extract, vector_search_tool] prompt in
                \<lparr>result = fst (lib c w2), final = snd (lib c w2),
                 events = [ClockRead (clock w), ECall placeholder_call (Inr placeholder),
                           ECall (template_call text placeholder) (Inr prompt),
                           ECall c (fst (lib c w2))]\<rparr>)))"
  by (simp add: cell_agent_def placeholder_call_def template_call_def factory_call_def eval_defs
      split: sum.splits)

lemma cell_agent_completed:
  assumes "result (cell_agent lib gpt_4_1 search crawl extract vector_search_tool w) = Inr hybrid_agent"
  shows "\<exists>placeholder prompt.
     events (cell_agent lib gpt_4_1 search crawl extract vector_search_tool w) =
       [ClockRead (clock w), ECall placeholder_call (Inr placeholder),
        ECall (template_call (system_prompt (strftime_today (clock w))) placeholder) (Inr prompt),
        ECall (factory_call gpt_4_1 [search, crawl, extract, vector_search_tool] prompt) (Inr hybrid_agent)]"
proof -
  let ?text = "system_prompt (strftime_today (clock w))"
  let ?w1 = "snd (lib placeholder_call w)"
  from assms obtain placeholder where p: "fst (lib placeholder_call w) = Inr placeholder"
    by (cases "fst (lib placeholder_call w)") (simp_all add: cell_agent_run)
  from assms p obtain prompt where t: "fst (lib (template_call ?text placeholder) ?w1) = Inr prompt"
    by (cases "fst (lib (template_call ?text placeholder) ?w1)") (simp_all add: cell_agent_run Let_def)
  from assms p t show ?thesis
    by (simp add: cell_agent_run Let_def)
qed

section \<open>The date in the prompt\<close>

lemma split_at_first:
  assumes "a @ c # x = b @ c # y" and "c \<notin> set a" and "c \<notin> set b"
  shows "a = b \<and> x = y"
  using assms
proof (induction a arbitrary: b)
  case Nil
  then show ?case by (cases b) auto
next
  case (Cons h a)
  then show ?case by (cases b) auto
qed

lemma append_same_length: "xs @ a = ys @ b \<Longrightarrow> length a = length b \<Longrightarrow> xs = ys \<and> a = b"
  by simp

lemma digit_char_inj: "digit_char a = digit_char b \<Longrightarrow> a mod 10 = b mod 10"
proof -
  assume "digit_char a = digit_char b"
  then have "''0123456789'' ! (a mod 10) = ''0123456789'' ! (b mod 10)"
    by (simp add: digit_char_def)
  moreover have "distinct ''0123456789''" by simp
  moreover have "a mod 10 < length ''0123456789''" "b mod 10 < length ''0123456789''" by simp_all
  ultimately show ?thesis
    by (simp only: nth_eq_iff_index_eq)
qed

lemma digits_step: "(x::nat) div 10 = y div 10 \<Longrightarrow> x mod 10 = y mod 10 \<Longrightarrow> x = y"
  by (metis div_mult_mod_eq)

lemma small_digit: "(x::nat) < 10 \<Longrightarrow> y < 10 \<Longrightarrow> x mod 10 = y mod 10 \<Longrightarrow> x = y"
  by simp

lemma two_digits_inj:
  assumes "two_digits a = two_digits b" "a < 100" "b < 100"
  shows "a = b"
proof -
  from assms(1) have h: "(a div 10) mod 10 = (b div 10) mod 10" and l: "a mod 10 = b mod 10"
    by (auto simp add: two_digits_def dest: digit_char_inj)
  from assms(2,3) have "a div 10 < 10" "b div 10 < 10" by simp_all
  with h have "a div 10 = b div 10" by simp
  then show ?thesis using l by (rule digits_step)
qed

lemma four_digits_inj:
  assumes "four_digits a = four_digits b" "a < 10000" "b < 10000"
  shows "a = b"
proof -
  from assms(1) have d3: "(a div 1000) mod 10 = (b div 1000) mod 10"
    and d2: "(a div 100) mod 10 = (b div 100) mod 10"
    and d1: "(a div 10) mod 10 = (b div 10) mod 10" and d0: "a mod 10 = b mod 10"
    by (auto simp add: four_digits_def dest: digit_char_inj)
  from assms(2,3) have "a div 1000 < 10" "b div 1000 < 10" by simp_all
  with d3 have e3: "a div 1000 = b div 1000" by simp
  have "a div 100 div 10 = b div 100 div 10"
    using e3 by (simp add: div_mult2_eq [symmetric])
  then have e2: "a div 100 = b div 100" using d2 by (rule digits_step)
  have "a div 10 div 10 = b div 10 div 10"
    using e2 by (simp add: div_mult2_eq [symmetric])
  then have e1: "a div 10 = b div 10" using d1 by (rule digits_step)
  then show ?thesis using d0 by (rule digits_step)
qed

lemma weekday_name_no_comma: "CHR '','' \<notin> set (weekday_names ! weekday d)"
proof -
  have "weekday d < 7" by (simp add: weekday_def)
  then have "weekday d \<in> {0, 1, 2, 3, 4, 5, 6}" by auto
  then show ?thesis
    by (auto simp add: weekday_names_def)
qed

lemma month_name_inj:
  assumes "month_names ! (a - 1) = month_names ! (b - 1)" "1 \<le> a" "a \<le> 12" "1 \<le> b" "b \<le> 12"
  shows "a = b"
proof -
  have "distinct month_names" by (simp add: month_names_def)
  moreover have "a - 1 < length month_names" "b - 1 < length month_names"
    using assms by (simp_all add: month_names_def)
  ultimately have "a - 1 = b - 1"
    using assms(1) by (simp only: nth_eq_iff_index_eq)
  with assms show ?thesis by simp
qed

lemma strftime_today_inj:
  assumes eq: "strftime_today a = strftime_today b" and a: "valid_date a" and b: "valid_date b"
  shows "date_of a = date_of b"
proof -
  define wa where "wa = weekday_names ! weekday a"
  define wb where "wb = weekday_names ! weekday b"
  define ma where "ma = month_names ! (month a - 1)"
  define mb where "mb = month_names ! (month b - 1)"
  define da where "da = two_digits (day a)"
  define db where "db = two_digits (day b)"
  define ya where "ya = four_digits (year a)"
  define yb where "yb = four_digits (year b)"
  have ld: "length da = length db" by (simp add: da_def db_def two_digits_def)
  have ly: "length ya = length yb" by (simp add: ya_def yb_def four_digits_def)
  from eq have e0: "(wa @ '', '' @ ma @ '' '' @ da @ '', '') @ ya = (wb @ '', '' @ mb @ '' '' @ db @ '', '') @ yb"
    by (simp add: strftime_today_def wa_def wb_def ma_def mb_def da_def db_def ya_def yb_def)
  from append_same_length [OF e0 ly]
  have e1: "wa @ '', '' @ ma @ '' '' @ da @ '', '' = wb @ '', '' @ mb @ '' '' @ db @ '', ''" and y: "ya = yb"
    by simp_all
  from e1 have "(wa @ '', '' @ ma @ '' '') @ (da @ '', '') = (wb @ '', '' @ mb @ '' '') @ (db @ '', '')"
    by simp
  from append_same_length [OF this] ld
  have e2: "wa @ '', '' @ ma @ '' '' = wb @ '', '' @ mb @ '' ''" and d: "da = db"
    by simp_all
  from e2 have "wa @ CHR '','' # ('' '' @ ma @ '' '') = wb @ CHR '','' # ('' '' @ mb @ '' '')"
    by simp
  from split_at_first [OF this] have m: "ma = mb"
    by (simp add: wa_def wb_def weekday_name_no_comma)
  from y a b have year: "year a = year b"
    unfolding ya_def yb_def by (intro four_digits_inj) (simp_all add: valid_date_def)
  from d a b have day: "day a = day b"
    unfolding da_def db_def by (intro two_digits_inj) (simp_all add: valid_date_def)
  from m a b have month: "month a = month b"
    unfolding ma_def mb_def by (intro month_name_inj) (simp_all add: valid_date_def)
  from year month day show ?thesis
    by (simp add: date_of_def)
qed

lemma strftime_today_date:
  assumes "date_of a = date_of b"
  shows "strftime_today a = strftime_today b"
  using assms by (simp add: date_of_def strftime_today_def weekday_def toordinal_def)

lemma system_prompt_inj: "system_prompt a = system_prompt b \<longleftrightarrow> a = b"
  by (simp add: system_prompt_def)

lemma prompt_texts_completed:
  "prompt_texts [ClockRead d, ECall placeholder_call (Inr placeholder),
        ECall (template_call text placeholder) (Inr prompt),
        ECall (factory_call model tools prompt) (Inr hybrid_agent)] = [text]"
  by (simp add: prompt_texts_def List.map_filter_def system_text_def placeholder_call_def
      template_call_def factory_call_def)

text \<open>
  C9: the system prompt embeds the date of agent construction, and nothing else of the
  clock. A construction that completes reads the clock once and passes one prompt text
  to the template: the fixed text with that date, formatted by \<^verbatim>\<open>"%A, %B %d, %Y"\<close>, in it.
  Two constructions (under any libraries, with any handles) produce the same prompt text
  if and only if they happen on the same calendar date.
\<close>

theorem prompt_text_determined_by_construction_date:
  assumes "valid_date (clock w1)" and "valid_date (clock w2)"
    and "result (cell_agent lib1 g1 s1 c1 e1 v1 w1) = Inr a1"
    and "result (cell_agent lib2 g2 s2 c2 e2 v2 w2) = Inr a2"
  shows "clock_reads (events (cell_agent lib1 g1 s1 c1 e1 v1 w1)) = [clock w1]
    \<and> prompt_texts (events (cell_agent lib1 g1 s1 c1 e1 v1 w1)) = [system_prompt (strftime_today (clock w1))]
    \<and> prompt_texts (events (cell_agent lib2 g2 s2 c2 e2 v2 w2)) = [system_prompt (strftime_today (clock w2))]
    \<and> (prompt_texts (events (cell_agent lib1 g1 s1 c1 e1 v1 w1))
          = prompt_texts (events (cell_agent lib2 g2 s2 c2 e2 v2 w2))
        \<longleftrightarrow> date_of (clock w1) = date_of (clock w2))"
proof -
  from cell_agent_completed [OF assms(3)] obtain ph1 p1 where
    ev1: "events (cell_agent lib1 g1 s1 c1 e1 v1 w1) =
       [ClockRead (clock w1), ECall placeholder_call (Inr ph1),
        ECall (template_call (system_prompt (strftime_today (clock w1))) ph1) (Inr p1),
        ECall (factory_call g1 [s1, c1, e1, v1] p1) (Inr a1)]"
    by blast
  from cell_agent_completed [OF assms(4)] obtain ph2 p2 where
    ev2: "events (cell_agent lib2 g2 s2 c2 e2 v2 w2) =
       [ClockRead (clock w2), ECall placeholder_call (Inr ph2),
        ECall (template_call (system_prompt (strftime_today (clock w2))) ph2) (Inr p2),
        ECall (factory_call g2 [s2, c2, e2, v2] p2) (Inr a2)]"
    by blast
  have c: "clock_reads (events (cell_agent lib1 g1 s1 c1 e1 v1 w1)) = [clock w1]"
    by (simp add: ev1)
  have t1: "prompt_texts (events (cell_agent lib1 g1 s1 c1 e1 v1 w1)) = [system_prompt (strftime_today (clock w1))]"
    by (simp only: ev1 prompt_texts_completed)
  have t2: "prompt_texts (events (cell_agent lib2 g2 s2 c2 e2 v2 w2)) = [system_prompt (strftime_today (clock w2))]"
    by (simp only: ev2 prompt_texts_completed)
  have "strftime_today (clock w1) = strftime_today (clock w2) \<longleftrightarrow> date_of (clock w1) = date_of (clock w2)"
    using strftime_today_inj [OF _ assms(1) assms(2)] strftime_today_date by blast
  with c t1 t2 show ?thesis
    by (simp add: system_prompt_inj)
qed

theorem prompt_text_determined_by_construction_date_witness:
  "prompt_texts (events (cell_agent demo_lib VNone VNone VNone VNone VNone (demo_world Map.empty)))
     = prompt_texts (events (cell_agent demo_lib VNone VNone VNone VNone VNone
         ((demo_world Map.empty)\<lparr>clock := demo_clock\<lparr>hour := 17\<rparr>\<rparr>)))
   \<and> prompt_texts (events (cell_agent demo_lib VNone VNone VNone VNone VNone (demo_world Map.empty)))
     \<noteq> prompt_texts (events (cell_agent demo_lib VNone VNone VNone VNone VNone
         ((demo_world Map.empty)\<lparr>clock := demo_clock\<lparr>day := 24\<rparr>\<rparr>)))
   \<and> strftime_today demo_clock = ''Monday, June 23, 2025''"
proof -
  let ?w1 = "demo_world Map.empty"
  let ?w2 = "(demo_world Map.empty)\<lparr>clock := demo_clock\<lparr>hour := 17\<rparr>\<rparr>"
  let ?w3 = "(demo_world Map.empty)\<lparr>clock := demo_clock\<lparr>day := 24\<rparr>\<rparr>"
  have v1: "valid_date (clock ?w1)" by (simp add: valid_date_def demo_world_def demo_clock_def)
  have v2: "valid_date (clock ?w2)" by (simp add: valid_date_def demo_world_def demo_clock_def)
  have v3: "valid_date (clock ?w3)" by (simp add: valid_date_def demo_world_def demo_clock_def)
  have r: "\<And>w. result (cell_agent demo_lib VNone VNone VNone VNone VNone w)
      = Inr (VObj ''create_react_agent'' [(''model'', VNone), (''tools'', VList [VNone, VNone, VNone, VNone]),
          (''prompt'', VObj ''ChatPromptTemplate.from_messages'' []), (''name'', VStr ''hybrid_agent'')])"
    by (simp add: cell_agent_def eval_defs demo_lib_def)
  have d12: "date_of (clock ?w1) = date_of (clock ?w2)"
    by (simp add: date_of_def demo_world_def demo_clock_def)
  have d13: "date_of (clock ?w1) \<noteq> date_of (clock ?w3)"
    by (simp add: date_of_def demo_world_def demo_clock_def)
  have s: "strftime_today demo_clock = ''Monday, June 23, 2025''"
    by (simp add: strftime_today_def demo_clock_def weekday_def toordinal_def days_before_year_def
        days_before_month_def is_leap_def weekday_names_def month_names_def two_digits_def
        four_digits_def digit_char_def)
  from d12 d13 s show ?thesis
    using prompt_text_determined_by_construction_date [OF v1 v2 r r]
      prompt_text_determined_by_construction_date [OF v1 v3 r r]
    by blast
qed

section \<open>Scripts\<close>

























section \<open>Wiring\<close>

lemma returned_append: "returned P (evs @ evs') = returned P evs @ returned P evs'"
  by (induction P evs rule: returned.induct) simp_all

lemma results_of_append: "results_of n (evs @ evs') = results_of n evs @ results_of n evs'"
  by (simp add: results_of_def returned_append)

lemma tool_calls_append: "tool_calls (evs @ evs') = tool_calls evs @ tool_calls evs'"
  by (simp add: tool_calls_def calls_of_append)

lemma agent_calls_append: "agent_calls (evs @ evs') = agent_calls evs @ agent_calls evs'"
  by (simp add: agent_calls_def calls_named_append)

lemma clock_reads_append: "clock_reads (evs @ evs') = clock_reads evs @ clock_reads evs'"
  by (induction evs rule: clock_reads.induct) simp_all

lemma aside_calls_named:
  "list_all aside (calls_of evs) \<Longrightarrow> \<not> aside (Call n [] []) \<Longrightarrow> calls_named n evs = []"
  by (induction evs rule: calls_of.induct) (auto simp add: calls_named_def aside_def)

lemma aside_returned:
  "list_all aside (calls_of evs) \<Longrightarrow> (\<And>c. P c \<Longrightarrow> \<not> aside c) \<Longrightarrow> returned P evs = []"
proof (induction P evs rule: returned.induct)
  case (2 P c v evs)
  then show ?case by auto
qed simp_all

lemma aside_results_of:
  "list_all aside (calls_of evs) \<Longrightarrow> \<not> aside (Call n [] []) \<Longrightarrow> results_of n evs = []"
  unfolding results_of_def by (rule aside_returned) (auto simp add: aside_def)

lemma aside_chat_model:
  "list_all aside (calls_of evs) \<Longrightarrow> returned (is_chat_model m) evs = []"
  by (rule aside_returned) (auto simp add: aside_def is_chat_model_def)

lemma aside_tool_calls: "list_all aside (calls_of evs) \<Longrightarrow> tool_calls evs = []"
  by (induction evs rule: calls_of.induct) (auto simp add: tool_calls_def aside_def)

lemma aside_agent_calls: "list_all aside (calls_of evs) \<Longrightarrow> agent_calls evs = []"
  unfolding agent_calls_def by (rule aside_calls_named) (simp_all add: aside_def)

lemmas aside_simps = aside_tool_calls aside_agent_calls aside_chat_model
  aside_results_of [of _ "''TavilySearch''"] aside_results_of [of _ "''TavilyCrawl''"]
  aside_results_of [of _ "''TavilyExtract''"] aside_results_of [of _ "''as_tool''"]
  aside_results_of [of _ "''ChatPromptTemplate.from_messages''"]
  aside_calls_named [of _ "''ChatPromptTemplate.from_messages''"]

lemmas append_simps = tool_calls_append agent_calls_append results_of_append returned_append
  calls_named_append clock_reads_append

lemma wiring_aside:
  assumes "list_all aside (calls_of q)"
  shows "wiring q"
  using assms by (simp add: wiring_def aside_simps)

lemma wiring_aside_prefix:
  assumes "list_all aside (calls_of q)" and "wiring evs"
  shows "wiring (q @ evs)"
proof -
  have n: "\<not> aside (Call ''TavilySearch'' [] [])" "\<not> aside (Call ''TavilyCrawl'' [] [])"
    "\<not> aside (Call ''TavilyExtract'' [] [])" "\<not> aside (Call ''as_tool'' [] [])"
    "\<not> aside (Call ''ChatPromptTemplate.from_messages'' [] [])"
    by (simp_all add: aside_def tool_order_def)
  from assms(2) show ?thesis
    unfolding wiring_def
    by (auto simp add: append_simps aside_simps [OF assms(1)] n split: list.splits)
qed

lemma wiring_aside_suffix:
  assumes "list_all aside (calls_of q)" and "wiring evs"
  shows "wiring (evs @ q)"
proof -
  have n: "\<not> aside (Call ''TavilySearch'' [] [])" "\<not> aside (Call ''TavilyCrawl'' [] [])"
    "\<not> aside (Call ''TavilyExtract'' [] [])" "\<not> aside (Call ''as_tool'' [] [])"
    "\<not> aside (Call ''ChatPromptTemplate.from_messages'' [] [])"
    by (simp_all add: aside_def tool_order_def)
  from assms(2) show ?thesis
    unfolding wiring_def
    by (auto simp add: append_simps aside_simps [OF assms(1)] n split: list.splits)
qed


lemma aside_cell_env_file: "only_calls aside (cell_env_file lib)"
  unfolding cell_env_file_def by (intro only_calls_intros) (simp_all add: aside_def tool_order_def)

lemma aside_cell_install: "only_calls aside (cell_install lib)"
  unfolding cell_install_def by (intro only_calls_intros) (simp_all add: aside_def tool_order_def)

lemma aside_cell_setup: "only_calls aside (cell_setup lib)"
  unfolding cell_setup_def prompt_if_unset_def
  by (intro only_calls_intros) (simp_all add: aside_def tool_order_def)

lemma aside_cell_vector_store: "only_calls aside (cell_vector_store lib)"
  unfolding cell_vector_store_def by (intro only_calls_intros) (simp_all add: aside_def tool_order_def)

lemma aside_cell_retriever: "only_calls aside (cell_retriever lib vector_store)"
  unfolding cell_retriever_def by (intro only_calls_intros) (simp_all add: aside_def tool_order_def)

lemma aside_cell_print_results: "only_calls aside (cell_print_results lib search_results)"
  unfolding cell_print_results_def
  by (intro only_calls_intros only_calls_for_each) (simp_all add: aside_def tool_order_def)

lemma aside_cell_invoke: "only_calls aside (cell_invoke lib hybrid_agent question message)"
  unfolding cell_invoke_def Let_def
  by (intro only_calls_intros only_calls_stream_loop) (simp_all add: aside_def tool_order_def)

lemma aside_cell_markdown: "only_calls aside (cell_markdown lib message)"
  unfolding cell_markdown_def
  by (intro only_calls_intros) (simp_all add: aside_def tool_order_def)

text \<open>A block aside before, or after, a block that is wired.\<close>

lemma wiring_after_aside:
  fixes m :: "('x, 'a) nb" and f :: "'a \<Rightarrow> ('x, 'b) nb"
  assumes m: "only_calls aside m" and f: "\<And>v. emits (f v) (\<lambda>r evs. wiring evs)"
  shows "emits (bind m f) (\<lambda>r evs. wiring evs)"
proof (rule emits_bind, rule emits_weaken [OF m [unfolded only_calls_def]])
  fix r :: "error + 'a" and evs
  assume q: "list_all aside (calls_of evs)"
  show "case r of Inl e \<Rightarrow> wiring evs | Inr v \<Rightarrow> emits (f v) (\<lambda>r' evs'. wiring (evs @ evs'))"
  proof (cases r)
    case (Inl e)
    with q show ?thesis by (simp add: wiring_aside)
  next
    case (Inr v)
    have "emits (f v) (\<lambda>r' evs'. wiring (evs @ evs'))"
      by (rule emits_weaken [OF f]) (rule wiring_aside_prefix [OF q])
    with Inr show ?thesis by simp
  qed
qed

lemma wiring_before_aside:
  fixes m :: "('x, 'a) nb" and f :: "'a \<Rightarrow> ('x, 'b) nb"
  assumes m: "emits m (\<lambda>r evs. wiring evs)" and f: "\<And>v. only_calls aside (f v)"
  shows "emits (bind m f) (\<lambda>r evs. wiring evs)"
proof (rule emits_bind, rule emits_weaken [OF m])
  fix r :: "error + 'a" and evs
  assume w: "wiring evs"
  show "case r of Inl e \<Rightarrow> wiring evs | Inr v \<Rightarrow> emits (f v) (\<lambda>r' evs'. wiring (evs @ evs'))"
  proof (cases r)
    case (Inl e)
    with w show ?thesis by simp
  next
    case (Inr v)
    have "emits (f v) (\<lambda>r' evs'. wiring (evs @ evs'))"
      by (rule emits_weaken [OF f [unfolded only_calls_def]]) (rule wiring_aside_suffix [OF _ w])
    with Inr show ?thesis by simp
  qed
qed


lemma returned_ECall:
  "returned P (ECall c r # evs) =
     (case r of Inl e \<Rightarrow> returned P evs | Inr v \<Rightarrow> if P c then v # returned P evs else returned P evs)"
  by (cases r) simp_all

lemma wiring_core:
  "emits (bind (cell_tools lib retriever) (\<lambda>(vector_search_tool, search, extr, crawl).
     bind (cell_models lib) (\<lambda>(o3_mini, gpt_4_1).
       cell_agent lib gpt_4_1 search crawl extr vector_search_tool)))
     (\<lambda>r evs. wiring evs)"
  unfolding cell_tools_def cell_models_def cell_agent_def Let_def
  by (auto intro!: emits_bind emits_call emits_environ_get emits_return emits_datetime_today
      simp: wiring_def tool_calls_def tool_order_def agent_calls_def calls_named_def
        results_of_def is_chat_model_def factory_call_def system_text_def returned_ECall
      split: sum.splits)


lemma emits_case_prod: "(\<And>a b. emits (f a b) Q) \<Longrightarrow> emits (case_prod f p) Q"
  by (cases p) simp

lemma build_wiring: "emits (build lib) (\<lambda>r evs. wiring evs)"
  unfolding build_def
  by (intro wiring_after_aside emits_case_prod wiring_core aside_cell_env_file aside_cell_install
      aside_cell_setup aside_cell_vector_store aside_cell_retriever aside_cell_print_results)

lemma notebook_wiring: "emits (notebook lib) (\<lambda>r evs. wiring evs)"
  unfolding notebook_def
  by (intro wiring_before_aside build_wiring only_calls_bind aside_cell_invoke aside_cell_markdown)

lemma singleton_hd: "length xs = 1 \<Longrightarrow> xs = [hd xs]"
  by (cases xs) simp_all

lemma wiring_agent_call:
  assumes "wiring evs" and "agent_calls evs \<noteq> []"
  shows "results_of ''TavilySearch'' evs = [hd (results_of ''TavilySearch'' evs)]
    \<and> results_of ''TavilyCrawl'' evs = [hd (results_of ''TavilyCrawl'' evs)]
    \<and> results_of ''TavilyExtract'' evs = [hd (results_of ''TavilyExtract'' evs)]
    \<and> results_of ''as_tool'' evs = [hd (results_of ''as_tool'' evs)]
    \<and> returned (is_chat_model ''gpt-4.1'') evs = [hd (returned (is_chat_model ''gpt-4.1'') evs)]
    \<and> results_of ''ChatPromptTemplate.from_messages'' evs
        = [hd (results_of ''ChatPromptTemplate.from_messages'' evs)]
    \<and> map call_name (tool_calls evs) = tool_order
    \<and> agent_calls evs =
        [factory_call (hd (returned (is_chat_model ''gpt-4.1'') evs))
           [hd (results_of ''TavilySearch'' evs), hd (results_of ''TavilyCrawl'' evs),
            hd (results_of ''TavilyExtract'' evs), hd (results_of ''as_tool'' evs)]
           (hd (results_of ''ChatPromptTemplate.from_messages'' evs))]
    \<and> (\<exists>d \<in> set (clock_reads evs).
          map system_text (calls_named ''ChatPromptTemplate.from_messages'' evs)
            = [Some (system_prompt (strftime_today d))])"
proof -
  from assms(2) obtain c cs where a: "agent_calls evs = c # cs"
    by (cases "agent_calls evs") simp_all
  from assms(1) a show ?thesis
    unfolding wiring_def by (simp add: singleton_hd [symmetric])
qed

lemma wiring_tools_prefix: "wiring evs \<Longrightarrow> prefix (map call_name (tool_calls evs)) tool_order"
  by (simp add: wiring_def)

lemma wiring_one_agent: "wiring evs \<Longrightarrow> length (agent_calls evs) \<le> 1"
  by (cases "agent_calls evs") (simp_all add: wiring_def)

lemma demo_notebook_agent_calls:
  "agent_calls (events (notebook demo_lib (demo_world Map.empty))) =
     [factory_call
        (VObj ''ChatOpenAI'' [(''model'', VStr ''gpt-4.1''), (''api_key'', VStr ''typed-key'')])
        [VObj ''TavilySearch'' [(''max_results'', VInt 10), (''topic'', VStr ''general'')],
         VObj ''TavilyCrawl'' [],
         VObj ''TavilyExtract'' [(''extract_depth'', VStr ''advanced'')],
         VObj ''as_tool'' [(''name'', VStr ''vector_search''),
           (''description'', VStr (''\<newline>'' @ ''    Perform a vector search on our company's CRM data.\<newline>'' @ ''    ''))]]
        (VObj ''ChatPromptTemplate.from_messages'' [])]"
  by (simp add: notebook_def build_def cell_env_file_def cell_install_def cell_setup_def
      prompt_if_unset_def cell_vector_store_def cell_retriever_def cell_print_results_def
      cell_tools_def cell_models_def cell_agent_def cell_invoke_def cell_markdown_def eval_defs
      demo_lib_def demo_world_def TAVILY_API_KEY_def OPENAI_API_KEY_def demo_human_def
      demo_answer_def agent_calls_def calls_named_def factory_call_def)

text \<open>
  C2: four tool handles, and these four are the agent's tools. In every run of the
  notebook, under any library, the tool constructions are calls of library constructors,
  at most one each of \<^verbatim>\<open>as_tool\<close> (vector retrieval), \<^verbatim>\<open>TavilySearch\<close>, \<^verbatim>\<open>TavilyExtract\<close> and
  \<^verbatim>\<open>TavilyCrawl\<close>, in this order; and if the agent factory is called, then all four have
  been constructed, each exactly once, and the factory's \<^verbatim>\<open>tools\<close> argument is the list
  of exactly the four values they returned: search, crawl, extract, vector retrieval.
\<close>

theorem four_tools_passed_to_agent:
  "prefix (map call_name (tool_calls (events (notebook lib w)))) tool_order
   \<and> (agent_calls (events (notebook lib w)) = []
      \<or> (\<exists>search crawl extr vector_search_tool model prompt.
            results_of ''TavilySearch'' (events (notebook lib w)) = [search]
          \<and> results_of ''TavilyCrawl'' (events (notebook lib w)) = [crawl]
          \<and> results_of ''TavilyExtract'' (events (notebook lib w)) = [extr]
          \<and> results_of ''as_tool'' (events (notebook lib w)) = [vector_search_tool]
          \<and> map call_name (tool_calls (events (notebook lib w))) = tool_order
          \<and> agent_calls (events (notebook lib w))
              = [factory_call model [search, crawl, extr, vector_search_tool] prompt]))"
proof -
  have w: "wiring (events (notebook lib w))"
    using notebook_wiring by (rule emitsD)
  show ?thesis
  proof (cases "agent_calls (events (notebook lib w)) = []")
    case True
    with wiring_tools_prefix [OF w] show ?thesis by simp
  next
    case False
    from wiring_agent_call [OF w False] wiring_tools_prefix [OF w] show ?thesis
      by blast
  qed
qed

theorem four_tools_passed_to_agent_witness:
  "map call_name (tool_calls (events (notebook demo_lib (demo_world Map.empty)))) = tool_order
   \<and> agent_calls (events (notebook demo_lib (demo_world Map.empty))) =
     [factory_call
        (VObj ''ChatOpenAI'' [(''model'', VStr ''gpt-4.1''), (''api_key'', VStr ''typed-key'')])
        [VObj ''TavilySearch'' [(''max_results'', VInt 10), (''topic'', VStr ''general'')],
         VObj ''TavilyCrawl'' [],
         VObj ''TavilyExtract'' [(''extract_depth'', VStr ''advanced'')],
         VObj ''as_tool'' [(''name'', VStr ''vector_search''),
           (''description'', VStr (''\<newline>'' @ ''    Perform a vector search on our company's CRM data.\<newline>'' @ ''    ''))]]
        (VObj ''ChatPromptTemplate.from_messages'' [])]"
proof -
  from demo_notebook_agent_calls
  have "agent_calls (events (notebook demo_lib (demo_world Map.empty))) \<noteq> []"
    by simp
  with four_tools_passed_to_agent [of demo_lib "demo_world Map.empty"]
  have "map call_name (tool_calls (events (notebook demo_lib (demo_world Map.empty)))) = tool_order"
    by blast
  with demo_notebook_agent_calls show ?thesis by simp
qed

text \<open>
  C4: the agent is constructed by one call of the library's factory. In every run of the
  notebook the factory \<^verbatim>\<open>create_react_agent\<close> is called at most once; when it is called,
  its arguments are the model handle (the value returned by the one construction of the
  \<^verbatim>\<open>gpt-4.1\<close> chat model), the list of the four tool handles, the prompt (the value the
  library's template constructor returned for the system text, which is the prompt text
  formatted with a date read from the clock, followed by the messages placeholder), and
  the name \<^verbatim>\<open>hybrid_agent\<close>. When the agent cell completes, the agent is the value this
  call returned.
\<close>

theorem agent_built_by_one_factory_call:
  "length (agent_calls (events (notebook lib w))) \<le> 1
   \<and> (agent_calls (events (notebook lib w)) = []
      \<or> (\<exists>model search crawl extr vector_search_tool prompt.
            returned (is_chat_model ''gpt-4.1'') (events (notebook lib w)) = [model]
          \<and> results_of ''TavilySearch'' (events (notebook lib w)) = [search]
          \<and> results_of ''TavilyCrawl'' (events (notebook lib w)) = [crawl]
          \<and> results_of ''TavilyExtract'' (events (notebook lib w)) = [extr]
          \<and> results_of ''as_tool'' (events (notebook lib w)) = [vector_search_tool]
          \<and> results_of ''ChatPromptTemplate.from_messages'' (events (notebook lib w)) = [prompt]
          \<and> (\<exists>d \<in> set (clock_reads (events (notebook lib w))).
                map system_text (calls_named ''ChatPromptTemplate.from_messages'' (events (notebook lib w)))
                  = [Some (system_prompt (strftime_today d))])
          \<and> agent_calls (events (notebook lib w))
              = [factory_call model [search, crawl, extr, vector_search_tool] prompt]))
   \<and> (\<forall>hybrid_agent.
         result (cell_agent lib gpt_4_1 search' crawl' extr' tool' w) = Inr hybrid_agent \<longrightarrow>
         (\<exists>placeholder prompt.
            events (cell_agent lib gpt_4_1 search' crawl' extr' tool' w) =
              [ClockRead (clock w), ECall placeholder_call (Inr placeholder),
               ECall (template_call (system_prompt (strftime_today (clock w))) placeholder) (Inr prompt),
               ECall (factory_call gpt_4_1 [search', crawl', extr', tool'] prompt) (Inr hybrid_agent)]))"
proof -
  have w: "wiring (events (notebook lib w))"
    using notebook_wiring by (rule emitsD)
  have one: "length (agent_calls (events (notebook lib w))) \<le> 1"
    using w by (rule wiring_one_agent)
  have args: "agent_calls (events (notebook lib w)) = []
      \<or> (\<exists>model search crawl extr vector_search_tool prompt.
            returned (is_chat_model ''gpt-4.1'') (events (notebook lib w)) = [model]
          \<and> results_of ''TavilySearch'' (events (notebook lib w)) = [search]
          \<and> results_of ''TavilyCrawl'' (events (notebook lib w)) = [crawl]
          \<and> results_of ''TavilyExtract'' (events (notebook lib w)) = [extr]
          \<and> results_of ''as_tool'' (events (notebook lib w)) = [vector_search_tool]
          \<and> results_of ''ChatPromptTemplate.from_messages'' (events (notebook lib w)) = [prompt]
          \<and> (\<exists>d \<in> set (clock_reads (events (notebook lib w))).
                map system_text (calls_named ''ChatPromptTemplate.from_messages'' (events (notebook lib w)))
                  = [Some (system_prompt (strftime_today d))])
          \<and> agent_calls (events (notebook lib w))
              = [factory_call model [search, crawl, extr, vector_search_tool] prompt])"
  proof (cases "agent_calls (events (notebook lib w)) = []")
    case True
    then show ?thesis by simp
  next
    case False
    note a = wiring_agent_call [OF w False]
    show ?thesis
    proof (intro disjI2 exI conjI)
      show "returned (is_chat_model ''gpt-4.1'') (events (notebook lib w))
          = [hd (returned (is_chat_model ''gpt-4.1'') (events (notebook lib w)))]"
        by (rule a [THEN conjunct2, THEN conjunct2, THEN conjunct2, THEN conjunct2, THEN conjunct1])
      show "results_of ''TavilySearch'' (events (notebook lib w))
          = [hd (results_of ''TavilySearch'' (events (notebook lib w)))]"
        by (rule a [THEN conjunct1])
      show "results_of ''TavilyCrawl'' (events (notebook lib w))
          = [hd (results_of ''TavilyCrawl'' (events (notebook lib w)))]"
        by (rule a [THEN conjunct2, THEN conjunct1])
      show "results_of ''TavilyExtract'' (events (notebook lib w))
          = [hd (results_of ''TavilyExtract'' (events (notebook lib w)))]"
        by (rule a [THEN conjunct2, THEN conjunct2, THEN conjunct1])
      show "results_of ''as_tool'' (events (notebook lib w))
          = [hd (results_of ''as_tool'' (events (notebook lib w)))]"
        by (rule a [THEN conjunct2, THEN conjunct2, THEN conjunct2, THEN conjunct1])
      show "results_of ''ChatPromptTemplate.from_messages'' (events (notebook lib w))
          = [hd (results_of ''ChatPromptTemplate.from_messages'' (events (notebook lib w)))]"
        by (rule a [THEN conjunct2, THEN conjunct2, THEN conjunct2, THEN conjunct2, THEN conjunct2,
              THEN conjunct1])
      show "\<exists>d \<in> set (clock_reads (events (notebook lib w))).
          map system_text (calls_named ''ChatPromptTemplate.from_messages'' (events (notebook lib w)))
            = [Some (system_prompt (strftime_today d))]"
        by (rule a [THEN conjunct2, THEN conjunct2, THEN conjunct2, THEN conjunct2, THEN conjunct2,
              THEN conjunct2, THEN conjunct2, THEN conjunct2])
      show "agent_calls (events (notebook lib w)) =
          [factory_call (hd (returned (is_chat_model ''gpt-4.1'') (events (notebook lib w))))
             [hd (results_of ''TavilySearch'' (events (notebook lib w))),
              hd (results_of ''TavilyCrawl'' (events (notebook lib w))),
              hd (results_of ''TavilyExtract'' (events (notebook lib w))),
              hd (results_of ''as_tool'' (events (notebook lib w)))]
             (hd (results_of ''ChatPromptTemplate.from_messages'' (events (notebook lib w))))]"
        by (rule a [THEN conjunct2, THEN conjunct2, THEN conjunct2, THEN conjunct2, THEN conjunct2,
              THEN conjunct2, THEN conjunct2, THEN conjunct1])
    qed
  qed
  have cell: "\<forall>hybrid_agent.
         result (cell_agent lib gpt_4_1 search' crawl' extr' tool' w) = Inr hybrid_agent \<longrightarrow>
         (\<exists>placeholder prompt.
            events (cell_agent lib gpt_4_1 search' crawl' extr' tool' w) =
              [ClockRead (clock w), ECall placeholder_call (Inr placeholder),
               ECall (template_call (system_prompt (strftime_today (clock w))) placeholder) (Inr prompt),
               ECall (factory_call gpt_4_1 [search', crawl', extr', tool'] prompt) (Inr hybrid_agent)])"
    using cell_agent_completed [of lib gpt_4_1 search' crawl' extr' tool' w] by blast
  from one args cell show ?thesis
    by (intro conjI)
qed


theorem agent_built_by_one_factory_call_witness:
  "length (agent_calls (events (notebook demo_lib (demo_world Map.empty)))) = 1
   \<and> (\<exists>placeholder prompt.
        events (cell_agent demo_lib (VStr ''model'') (VStr ''s'') (VStr ''c'') (VStr ''e'') (VStr ''v'')
                  (demo_world Map.empty)) =
          [ClockRead demo_clock, ECall placeholder_call (Inr placeholder),
           ECall (template_call (system_prompt (strftime_today demo_clock)) placeholder) (Inr prompt),
           ECall (factory_call (VStr ''model'') [VStr ''s'', VStr ''c'', VStr ''e'', VStr ''v''] prompt)
             (Inr (VObj ''create_react_agent''
                [(''model'', VStr ''model''), (''tools'', VList [VStr ''s'', VStr ''c'', VStr ''e'', VStr ''v'']),
                 (''prompt'', VObj ''ChatPromptTemplate.from_messages'' []),
                 (''name'', VStr ''hybrid_agent'')]))])"
proof -
  have r: "result (cell_agent demo_lib (VStr ''model'') (VStr ''s'') (VStr ''c'') (VStr ''e'') (VStr ''v'')
                  (demo_world Map.empty)) =
      Inr (VObj ''create_react_agent''
                [(''model'', VStr ''model''), (''tools'', VList [VStr ''s'', VStr ''c'', VStr ''e'', VStr ''v'']),
                 (''prompt'', VObj ''ChatPromptTemplate.from_messages'' []),
                 (''name'', VStr ''hybrid_agent'')])"
    by (simp add: cell_agent_def eval_defs demo_lib_def)
  have c: "clock (demo_world Map.empty) = demo_clock"
    by (simp add: demo_world_def)
  have l: "length (agent_calls (events (notebook demo_lib (demo_world Map.empty)))) = 1"
    by (simp add: demo_notebook_agent_calls)
  note t = agent_built_by_one_factory_call [of demo_lib "demo_world Map.empty" "VStr ''model''"
      "VStr ''s''" "VStr ''c''" "VStr ''e''" "VStr ''v''"]
  from t r c l show ?thesis by auto
qed

section \<open>Removing the unused handles\<close>

lemma bind_completed:
  assumes "result (bind m f w) = Inr b"
  obtains a where "result (m w) = Inr a" and "result (f a (final (m w))) = Inr b"
    and "final (bind m f w) = final (f a (final (m w)))"
    and "events (bind m f w) = events (m w) @ events (f a (final (m w)))"
proof (cases "result (m w)")
  case (Inl e)
  with assms show ?thesis by (simp add: bind_def Let_def)
next
  case (Inr a)
  with assms that [of a] show ?thesis by (simp add: bind_def Let_def)
qed

lemma simulates_refl: "simulates (=) m m"
  by (simp add: simulates_def)

lemma simulates_bind:
  assumes m: "simulates R m n" and f: "\<And>a b. R a b \<Longrightarrow> simulates S (f a) (g b)"
  shows "simulates S (bind m f) (bind n g)"
  unfolding simulates_def
proof (intro allI impI)
  fix w c
  assume "result (bind m f w) = Inr c"
  then obtain a where a: "result (m w) = Inr a" and fa: "result (f a (final (m w))) = Inr c"
    and fin: "final (bind m f w) = final (f a (final (m w)))"
    and ev: "events (bind m f w) = events (m w) @ events (f a (final (m w)))"
    by (rule bind_completed)
  from m a obtain b where b: "result (n w) = Inr b" and r: "R a b"
    and nf: "final (n w) = final (m w)" and no: "observed (events (n w)) = observed (events (m w))"
    unfolding simulates_def by blast
  from f [OF r] fa obtain d where d: "result (g b (final (m w))) = Inr d" and s: "S c d"
    and gf: "final (g b (final (m w))) = final (f a (final (m w)))"
    and go: "observed (events (g b (final (m w)))) = observed (events (f a (final (m w))))"
    unfolding simulates_def by blast
  from b d nf have "result (bind n g w) = Inr d"
    by (simp add: bind_def Let_def)
  moreover from b nf gf fin have "final (bind n g w) = final (bind m f w)"
    by (simp add: bind_def Let_def)
  moreover from b nf ev no go have "observed (events (bind n g w)) = observed (events (bind m f w))"
    by (simp add: bind_def Let_def observed_def)
  ultimately show "(\<exists>b. result (bind n g w) = Inr b \<and> S c b)
        \<and> final (bind n g w) = final (bind m f w)
        \<and> observed (events (bind n g w)) = observed (events (bind m f w))"
    using s by blast
qed

lemma simulates_same:
  assumes "\<And>a. simulates S (f a) (g a)"
  shows "simulates S (bind m f) (bind m g)"
  by (rule simulates_bind [OF simulates_refl]) (simp add: assms)

lemma simulates_case_prod:
  assumes "\<And>a b. simulates S (f a b) (g a b)"
  shows "simulates S (case_prod f p) (case_prod g p)"
  by (cases p) (simp add: assms)

lemma simulates_client:
  assumes "side_effect_free lib"
  shows "simulates (\<lambda>a b. True)
     (bind (environ_get TAVILY_API_KEY) (\<lambda>api_key. call lib (Call ''TavilyClient'' [] [(''api_key'', api_key)])))
     (return ())"
proof -
  have "snd (lib (Call ''TavilyClient'' [] [(''api_key'', k)]) w) = w" for k w
    using assms by (simp add: side_effect_free_def unused_construction_def)
  then show ?thesis
    by (simp add: simulates_def eval_defs observed_def unused_construction_def)
qed

lemma simulates_cell_setup:
  assumes "side_effect_free lib"
  shows "simulates (\<lambda>a b. True) (cell_setup lib) (cell_setup_without_client lib)"
  unfolding cell_setup_def cell_setup_without_client_def
  by (intro simulates_same simulates_client assms)

lemma simulates_cell_models:
  assumes "side_effect_free lib"
  shows "simulates (\<lambda>p g. snd p = g) (cell_models lib) (cell_models_without_o3 lib)"
proof -
  have "snd (lib (Call ''ChatOpenAI'' [] [(''model'', VStr ''o3-mini-2025-01-31''), (''api_key'', k)]) w) = w"
    for k w
    using assms by (simp add: side_effect_free_def unused_construction_def is_chat_model_def)
  then show ?thesis
    by (auto simp add: simulates_def cell_models_def cell_models_without_o3_def eval_defs observed_def
        unused_construction_def is_chat_model_def split: sum.splits)
qed

lemma simulates_build:
  assumes "side_effect_free lib"
  shows "simulates (=) (build lib) (build_without_unused lib)"
  unfolding build_def build_without_unused_def
proof (intro simulates_same)
  fix a1 :: pyval and a2 :: pyval
  show "simulates (=)
     (bind (cell_setup lib) (\<lambda>tavily_client.
        bind (cell_vector_store lib) (\<lambda>(embeddings, vector_store).
        bind (cell_retriever lib vector_store) (\<lambda>(retriever, search_results).
        bind (cell_print_results lib search_results) (\<lambda>_.
        bind (cell_tools lib retriever) (\<lambda>(vector_search_tool, search, extr, crawl).
        bind (cell_models lib) (\<lambda>(o3_mini, gpt_4_1).
        cell_agent lib gpt_4_1 search crawl extr vector_search_tool)))))))
     (bind (cell_setup_without_client lib) (\<lambda>_.
        bind (cell_vector_store lib) (\<lambda>(embeddings, vector_store).
        bind (cell_retriever lib vector_store) (\<lambda>(retriever, search_results).
        bind (cell_print_results lib search_results) (\<lambda>_.
        bind (cell_tools lib retriever) (\<lambda>(vector_search_tool, search, extr, crawl).
        bind (cell_models_without_o3 lib) (\<lambda>gpt_4_1.
        cell_agent lib gpt_4_1 search crawl extr vector_search_tool)))))))"
  proof (rule simulates_bind [OF simulates_cell_setup [OF assms]],
      intro simulates_same simulates_case_prod)
    fix retriever vector_search_tool search extr crawl :: pyval
    show "simulates (=)
       (bind (cell_models lib) (\<lambda>(o3_mini, gpt_4_1).
          cell_agent lib gpt_4_1 search crawl extr vector_search_tool))
       (bind (cell_models_without_o3 lib) (\<lambda>gpt_4_1.
          cell_agent lib gpt_4_1 search crawl extr vector_search_tool))"
    proof (rule simulates_bind [OF simulates_cell_models [OF assms]])
      fix p :: "pyval \<times> pyval" and g :: pyval
      assume "snd p = g"
      then show "simulates (=) (case p of (o3_mini, gpt_4_1) \<Rightarrow>
            cell_agent lib gpt_4_1 search crawl extr vector_search_tool)
          (cell_agent lib g search crawl extr vector_search_tool)"
        by (cases p) (simp add: simulates_refl)
    qed
  qed
qed

lemma simulates_notebook:
  assumes "side_effect_free lib"
  shows "simulates (=) (notebook lib) (notebook_without_unused lib)"
  unfolding notebook_def notebook_without_unused_def
  by (rule simulates_bind [OF simulates_build [OF assms]]) (simp add: simulates_refl)


lemma agent_calls_observed: "agent_calls (observed evs) = agent_calls evs"
proof (induction evs rule: calls_of.induct)
  case (2 c r evs)
  then show ?case
    by (simp add: agent_calls_def calls_named_def observed_def unused_construction_def is_chat_model_def)
qed (simp_all add: agent_calls_def calls_named_def observed_def)

lemma agent_called_bind:
  fixes m :: "('x, 'a) nb" and f :: "'a \<Rightarrow> ('x, 'b) nb"
  assumes "\<And>v. emits (f v) (\<lambda>r evs. case r of Inl e \<Rightarrow> True | Inr a \<Rightarrow> agent_calls evs \<noteq> [])"
  shows "emits (bind m f) (\<lambda>r evs. case r of Inl e \<Rightarrow> True | Inr a \<Rightarrow> agent_calls evs \<noteq> [])"
  unfolding emits_def
proof
  fix w
  show "case result (bind m f w) of Inl e \<Rightarrow> True | Inr a \<Rightarrow> agent_calls (events (bind m f w)) \<noteq> []"
  proof (cases "result (bind m f w)")
    case (Inl e)
    then show ?thesis by simp
  next
    case (Inr b)
    then obtain a where fa: "result (f a (final (m w))) = Inr b"
      and ev: "events (bind m f w) = events (m w) @ events (f a (final (m w)))"
      by (rule bind_completed)
    from assms [of a, THEN emitsD, of "final (m w)"] fa
    have "agent_calls (events (f a (final (m w)))) \<noteq> []" by simp
    with Inr ev show ?thesis by (simp add: agent_calls_append)
  qed
qed

lemma agent_called_cell_agent:
  "emits (cell_agent lib gpt_4_1 search crawl extr vector_search_tool)
     (\<lambda>r evs. case r of Inl e \<Rightarrow> True | Inr a \<Rightarrow> agent_calls evs \<noteq> [])"
  unfolding cell_agent_def Let_def
  by (auto intro!: emits_bind emits_call emits_datetime_today
      simp: agent_calls_def calls_named_def split: sum.splits)

lemma agent_called_build:
  "emits (build lib) (\<lambda>r evs. case r of Inl e \<Rightarrow> True | Inr a \<Rightarrow> agent_calls evs \<noteq> [])"
  unfolding build_def
  by (intro agent_called_bind emits_case_prod agent_called_cell_agent)

lemma side_effect_free_demo_lib: "side_effect_free demo_lib"
  by (simp add: side_effect_free_def demo_lib_def Let_def)

lemma demo_build_result:
  "result (build demo_lib (demo_world Map.empty)) =
     Inr (VObj ''create_react_agent''
       [(''model'', VObj ''ChatOpenAI'' [(''model'', VStr ''gpt-4.1''), (''api_key'', VStr ''typed-key'')]),
        (''tools'', VList
          [VObj ''TavilySearch'' [(''max_results'', VInt 10), (''topic'', VStr ''general'')],
           VObj ''TavilyCrawl'' [],
           VObj ''TavilyExtract'' [(''extract_depth'', VStr ''advanced'')],
           VObj ''as_tool'' [(''name'', VStr ''vector_search''),
             (''description'', VStr (''\<newline>'' @ ''    Perform a vector search on our company's CRM data.\<newline>'' @ ''    ''))]]),
        (''prompt'', VObj ''ChatPromptTemplate.from_messages'' []),
        (''name'', VStr ''hybrid_agent'')])"
  by (simp add: build_def cell_env_file_def cell_install_def cell_setup_def
      prompt_if_unset_def cell_vector_store_def cell_retriever_def cell_print_results_def
      cell_tools_def cell_models_def cell_agent_def eval_defs
      demo_lib_def demo_world_def TAVILY_API_KEY_def OPENAI_API_KEY_def)

text \<open>
  C10: the Tavily client and the \<^verbatim>\<open>o3-mini\<close> handle are constructed and never used. Take a
  library in which these two constructions leave the world as it is. Whenever the
  notebook's agent construction completes, the notebook without the two constructions
  completes too, from the same world, with the same agent and the same final world, and
  what it does is the same: the same library calls with the same arguments and outcomes
  (the two constructions apart), the same environment writes and clock readings; in
  particular the one call of the agent factory is the same, with the same model, tools
  and prompt, and its model is the value returned by the construction of the \<^verbatim>\<open>gpt-4.1\<close>
  handle. The same holds for the whole notebook, invocations included.
\<close>

theorem unused_handles_can_be_removed:
  assumes "side_effect_free lib" and "result (build lib w) = Inr hybrid_agent"
  shows "result (build_without_unused lib w) = Inr hybrid_agent
    \<and> final (build_without_unused lib w) = final (build lib w)
    \<and> observed (events (build_without_unused lib w)) = observed (events (build lib w))
    \<and> agent_calls (events (build_without_unused lib w)) = agent_calls (events (build lib w))
    \<and> (\<exists>gpt_4_1 tools prompt.
          returned (is_chat_model ''gpt-4.1'') (events (build lib w)) = [gpt_4_1]
        \<and> agent_calls (events (build lib w)) = [factory_call gpt_4_1 tools prompt])
    \<and> (\<forall>v. result (notebook lib w) = Inr v \<longrightarrow>
          result (notebook_without_unused lib w) = Inr v
        \<and> final (notebook_without_unused lib w) = final (notebook lib w)
        \<and> observed (events (notebook_without_unused lib w)) = observed (events (notebook lib w)))"
proof -
  from simulates_build [OF assms(1)] assms(2)
  have r: "result (build_without_unused lib w) = Inr hybrid_agent"
    and f: "final (build_without_unused lib w) = final (build lib w)"
    and o: "observed (events (build_without_unused lib w)) = observed (events (build lib w))"
    unfolding simulates_def by auto
  from o have a: "agent_calls (events (build_without_unused lib w)) = agent_calls (events (build lib w))"
    using agent_calls_observed [of "events (build_without_unused lib w)"]
      agent_calls_observed [of "events (build lib w)"] by simp
  have called: "agent_calls (events (build lib w)) \<noteq> []"
    using agent_called_build [of lib, THEN emitsD, of w] assms(2) by simp
  have wired: "wiring (events (build lib w))"
    using build_wiring by (rule emitsD)
  note c = wiring_agent_call [OF wired called]
  have m: "\<exists>gpt_4_1 tools prompt.
          returned (is_chat_model ''gpt-4.1'') (events (build lib w)) = [gpt_4_1]
        \<and> agent_calls (events (build lib w)) = [factory_call gpt_4_1 tools prompt]"
  proof (intro exI conjI)
    show "returned (is_chat_model ''gpt-4.1'') (events (build lib w))
        = [hd (returned (is_chat_model ''gpt-4.1'') (events (build lib w)))]"
      by (rule c [THEN conjunct2, THEN conjunct2, THEN conjunct2, THEN conjunct2, THEN conjunct1])
    show "agent_calls (events (build lib w)) =
        [factory_call (hd (returned (is_chat_model ''gpt-4.1'') (events (build lib w))))
           [hd (results_of ''TavilySearch'' (events (build lib w))),
            hd (results_of ''TavilyCrawl'' (events (build lib w))),
            hd (results_of ''TavilyExtract'' (events (build lib w))),
            hd (results_of ''as_tool'' (events (build lib w)))]
           (hd (results_of ''ChatPromptTemplate.from_messages'' (events (build lib w))))]"
      by (rule c [THEN conjunct2, THEN conjunct2, THEN conjunct2, THEN conjunct2, THEN conjunct2,
            THEN conjunct2, THEN conjunct2, THEN conjunct1])
  qed
  have n: "\<forall>v. result (notebook lib w) = Inr v \<longrightarrow>
          result (notebook_without_unused lib w) = Inr v
        \<and> final (notebook_without_unused lib w) = final (notebook lib w)
        \<and> observed (events (notebook_without_unused lib w)) = observed (events (notebook lib w))"
    using simulates_notebook [OF assms(1)] unfolding simulates_def by auto
  from r f o a m n show ?thesis
    by (intro conjI)
qed

theorem unused_handles_can_be_removed_witness:
  "result (build_without_unused demo_lib (demo_world Map.empty)) = result (build demo_lib (demo_world Map.empty))
   \<and> agent_calls (events (build_without_unused demo_lib (demo_world Map.empty)))
      = agent_calls (events (build demo_lib (demo_world Map.empty)))
   \<and> map call_name (calls_of (events (cell_models demo_lib (demo_world Map.empty))))
      = [''ChatOpenAI'', ''ChatOpenAI'']
   \<and> map call_name (calls_of (events (cell_models_without_o3 demo_lib (demo_world Map.empty))))
      = [''ChatOpenAI'']"
proof -
  have m: "map call_name (calls_of (events (cell_models demo_lib (demo_world Map.empty))))
      = [''ChatOpenAI'', ''ChatOpenAI'']"
    by (simp add: cell_models_def eval_defs demo_lib_def)
  have n: "map call_name (calls_of (events (cell_models_without_o3 demo_lib (demo_world Map.empty))))
      = [''ChatOpenAI'']"
    by (simp add: cell_models_without_o3_def eval_defs demo_lib_def)
  from m n show ?thesis
    using unused_handles_can_be_removed [OF side_effect_free_demo_lib demo_build_result]
    by (simp add: demo_build_result)
qed

end
